theory Spec2Isabelle
  imports Main "HOL-Library.AList"
begin

section \<open>Python values, exceptions and containers\<close>

text \<open>
  Property values, old properties and decoded JSON documents are Python objects. The
  embedding keeps the shapes the dispatcher can tell apart: \<open>None\<close>, booleans, integers,
  strings, lists and dictionaries with string keys. Floats are left out; characters are
  bytes. A dictionary is an association list in insertion order, read with \<open>map_of\<close>,
  written with \<open>AList.update\<close> and \<open>AList.delete\<close>.
\<close>

datatype pyval =
    PNone
  | PBool bool
  | PInt int
  | PStr string
  | PList "pyval list"
  | PDict "(string \<times> pyval) list"

type_synonym props = "(string \<times> pyval) list"

text \<open>Truth value of an object, as \<open>if x:\<close> and \<open>not x\<close> test it.\<close>

fun py_truthy :: "pyval \<Rightarrow> bool" where
  "py_truthy PNone = False"
| "py_truthy (PBool b) = b"
| "py_truthy (PInt n) = (n \<noteq> 0)"
| "py_truthy (PStr s) = (s \<noteq> [])"
| "py_truthy (PList xs) = (xs \<noteq> [])"
| "py_truthy (PDict kvs) = (kvs \<noteq> [])"

text \<open>
  The exceptions of the module, all subclasses of \<open>Exception\<close>: a handler
  \<open>except Exception\<close> catches every one of them.
\<close>

datatype py_exception =
    KeyError
  | NameError
  | BundleException
  | AttributeError
  | TypeError
  | ValueError
  | OtherException

datatype outcome = Returned | Raised py_exception

text \<open>\<open>d.setdefault(k, v)\<close>: the dictionary after the call.\<close>

definition setdefault :: "'k \<Rightarrow> 'v \<Rightarrow> ('k \<times> 'v) list \<Rightarrow> ('k \<times> 'v) list" where
  "setdefault k v d = (case map_of d k of None \<Rightarrow> d @ [(k, v)] | Some _ \<Rightarrow> d)"

text \<open>A \<open>set\<close> of UIDs is a list without repetition; \<open>s.add(u)\<close>:\<close>

definition set_add :: "'a \<Rightarrow> 'a list \<Rightarrow> 'a list" where
  "set_add u s = (if u \<in> set s then s else s @ [u])"

section \<open>Constants of pelix.remote and pelix.constants\<close>

text \<open>
  Modelled from the spec: the property-name constants of \<open>pelix.remote\<close> and
  \<open>pelix.constants\<close>, which are declared outside the source file. The spec names the
  keys \<open>exported.configs\<close>, \<open>exported.interfaces\<close>, \<open>imported\<close>, \<open>imported.configs\<close>,
  \<open>framework.uid\<close> and \<open>endpoint.name\<close>; the generated name is built from the service's
  identifier.
\<close>

definition PROP_EXPORTED_CONFIGS :: string where
  "PROP_EXPORTED_CONFIGS = ''exported.configs''"

definition PROP_EXPORTED_INTERFACES :: string where
  "PROP_EXPORTED_INTERFACES = ''exported.interfaces''"

definition PROP_IMPORTED :: string where
  "PROP_IMPORTED = ''imported''"

definition PROP_IMPORTED_CONFIGS :: string where
  "PROP_IMPORTED_CONFIGS = ''imported.configs''"

definition PROP_FRAMEWORK_UID :: string where
  "PROP_FRAMEWORK_UID = ''framework.uid''"

definition PROP_ENDPOINT_NAME :: string where
  "PROP_ENDPOINT_NAME = ''endpoint.name''"

definition SERVICE_ID :: string where
  "SERVICE_ID = ''service.id''"

section \<open>Collaborators of the dispatcher\<close>

text \<open>
  A service reference is a dictionary key by its identity and carries the service's
  current properties.
\<close>

record service_reference =
  ref_id :: nat
  ref_properties :: props

definition get_property :: "service_reference \<Rightarrow> string \<Rightarrow> pyval" where
  "get_property svc_ref key = (case map_of (ref_properties svc_ref) key of None \<Rightarrow> PNone | Some v \<Rightarrow> v)"

definition get_properties :: "service_reference \<Rightarrow> props" where
  "get_properties svc_ref = ref_properties svc_ref"

text \<open>
  Modelled from the spec: the export end point bean of \<open>pelix.remote.beans\<close> (outside the
  source file), with the attributes of the spec's data model.
\<close>

record export_endpoint =
  uid :: string
  name :: pyval
  configurations :: "string list"
  specifications :: "string list"
  properties :: props

text \<open>
  The name computed for an end point: the value of the \<open>endpoint.name\<close> property, or
  the string \<open>"service_{0}".format(v)\<close> for the service identifier \<open>v\<close>.
\<close>

datatype endpoint_name = PropertyName pyval | ServiceName pyval

text \<open>
  An exporter is an object outside the module. Its answers are functions of the
  arguments; \<open>export_service\<close> returns an end point or \<open>None\<close> or raises,
  \<open>update_export\<close> returns or raises. \<open>handles\<close> and \<open>unexport_service\<close> are taken to
  return normally: the dispatcher guards neither call and the exporter interface names
  no failure for them.
\<close>

record exporter =
  exporter_id :: nat
  handles :: "pyval \<Rightarrow> bool"
  export_service :: "service_reference \<Rightarrow> endpoint_name \<Rightarrow> string option \<Rightarrow> py_exception + export_endpoint option"
  update_export :: "export_endpoint \<Rightarrow> endpoint_name \<Rightarrow> props \<Rightarrow> outcome"

text \<open>A listener is an object outside the module; each of its methods returns or raises.\<close>

record listener =
  listener_id :: nat
  endpoints_added :: "export_endpoint list \<Rightarrow> outcome"
  endpoint_updated :: "export_endpoint \<Rightarrow> props \<Rightarrow> outcome"
  endpoint_removed :: "export_endpoint \<Rightarrow> props option \<Rightarrow> outcome"

text \<open>
  What the dispatcher does to the outside world, in order: the calls it makes on
  exporters and listeners and the lines it logs. \<open>EndpointRemoved e None\<close> is the call
  \<open>endpoint_removed(e)\<close>, \<open>EndpointRemoved e (Some p)\<close> the call \<open>endpoint_removed(e, p)\<close>.
\<close>

datatype notification =
    EndpointsAdded "export_endpoint list"
  | EndpointUpdated export_endpoint props
  | EndpointRemoved export_endpoint "props option"

datatype log_level = LogWarning | LogError

datatype event =
    Logged log_level string
  | ExportServiceCall nat nat endpoint_name
  | UpdateExportCall nat export_endpoint endpoint_name props
  | UnexportServiceCall nat export_endpoint
  | ListenerCall nat notification

section \<open>The dispatcher\<close>

record dispatcher =
  exporters :: "exporter list"
  listeners :: "listener list"
  fw_uid :: "string option"
  endpoints :: "(string \<times> export_endpoint) list"
  uid_exporter :: "(string \<times> exporter) list"
  service_uids :: "(nat \<times> string list) list"

datatype event_kind = REGISTERED | MODIFIED | MODIFIED_ENDMATCH | UNREGISTERING

record service_event =
  get_kind :: event_kind
  get_service_reference :: service_reference
  get_previous_properties :: props

definition compute_endpoint_name :: "props \<Rightarrow> py_exception + endpoint_name" where
  "compute_endpoint_name ps =
     (let name = (case map_of ps PROP_ENDPOINT_NAME of None \<Rightarrow> PNone | Some v \<Rightarrow> v)
      in if \<not> py_truthy name
         then (case map_of ps SERVICE_ID of
                 None \<Rightarrow> Inl KeyError
               | Some i \<Rightarrow> Inr (ServiceName i))
         else Inr (PropertyName name))"

text \<open>One call of a listener method.\<close>

fun deliver :: "listener \<Rightarrow> notification \<Rightarrow> outcome" where
  "deliver l (EndpointsAdded eps) = endpoints_added l eps"
| "deliver l (EndpointUpdated ep old) = endpoint_updated l ep old"
| "deliver l (EndpointRemoved ep old) = endpoint_removed l ep old"

text \<open>
  \<open>for listener in self._listeners: listener.m(...)\<close> with no handler around the call:
  the first listener that raises ends the loop and the exception leaves it.
\<close>

fun notify_listeners :: "listener list \<Rightarrow> notification \<Rightarrow> event list \<times> outcome" where
  "notify_listeners [] n = ([], Returned)"
| "notify_listeners (l # ls) n =
     (case deliver l n of
        Raised e \<Rightarrow> ([ListenerCall (listener_id l) n], Raised e)
      | Returned \<Rightarrow>
          (case notify_listeners ls n of
             (tr, out) \<Rightarrow> (ListenerCall (listener_id l) n # tr, out)))"

text \<open>The same loop with \<open>try: ... except Exception as ex: _logger.error(...)\<close> inside.\<close>

fun notify_listeners_guarded :: "listener list \<Rightarrow> notification \<Rightarrow> event list" where
  "notify_listeners_guarded [] n = []"
| "notify_listeners_guarded (l # ls) n =
     (case deliver l n of
        Raised e \<Rightarrow>
          ListenerCall (listener_id l) n # Logged LogError ''Error notifying listener: %s''
            # notify_listeners_guarded ls n
      | Returned \<Rightarrow> ListenerCall (listener_id l) n # notify_listeners_guarded ls n)"

subsection \<open>Export\<close>

text \<open>Storing a new end point: the three assignments after \<open>endpoints.append\<close>.\<close>

definition store_endpoint :: "nat \<Rightarrow> exporter \<Rightarrow> export_endpoint \<Rightarrow> dispatcher \<Rightarrow> dispatcher" where
  "store_endpoint rid x ep d =
     d\<lparr>endpoints := AList.update (uid ep) ep (endpoints d),
       uid_exporter := AList.update (uid ep) x (uid_exporter d),
       service_uids := AList.map_entry rid (set_add (uid ep)) (service_uids d)\<rparr>"

text \<open>
  The loop over the selected exporters. It returns the dispatcher, the list
  \<open>endpoints\<close>, the trace and how the loop ended. \<open>NameError\<close> and \<open>BundleException\<close>
  are logged and the loop goes on; any other exception leaves the loop.
\<close>

fun export_loop ::
  "service_reference \<Rightarrow> endpoint_name \<Rightarrow> exporter list \<Rightarrow> dispatcher
     \<Rightarrow> dispatcher \<times> export_endpoint list \<times> event list \<times> outcome" where
  "export_loop svc_ref nm [] d = (d, [], [], Returned)"
| "export_loop svc_ref nm (x # xs) d =
     (case export_service x svc_ref nm (fw_uid d) of
        Inr None \<Rightarrow>
          (case export_loop svc_ref nm xs d of
             (d', eps, tr, out) \<Rightarrow>
               (d', eps, ExportServiceCall (exporter_id x) (ref_id svc_ref) nm # tr, out))
      | Inr (Some ep) \<Rightarrow>
          (case export_loop svc_ref nm xs (store_endpoint (ref_id svc_ref) x ep d) of
             (d', eps, tr, out) \<Rightarrow>
               (d', ep # eps, ExportServiceCall (exporter_id x) (ref_id svc_ref) nm # tr, out))
      | Inl e \<Rightarrow>
          if e = NameError \<or> e = BundleException
          then (case export_loop svc_ref nm xs d of
                  (d', eps, tr, out) \<Rightarrow>
                    (d', eps,
                     ExportServiceCall (exporter_id x) (ref_id svc_ref) nm
                       # Logged LogError ''Error exporting service: %s'' # tr, out))
          else (d, [], [ExportServiceCall (exporter_id x) (ref_id svc_ref) nm], Raised e))"

text \<open>The exporters asked for a service: all of them, or those that handle its configurations.\<close>

definition select_exporters :: "dispatcher \<Rightarrow> service_reference \<Rightarrow> exporter list" where
  "select_exporters d svc_ref =
     (let configs = get_property svc_ref PROP_EXPORTED_CONFIGS
      in if \<not> py_truthy configs \<or> configs = PStr ''*''
         then exporters d
         else filter (\<lambda>x. handles x configs) (exporters d))"

definition Dispatcher_export_service ::
  "dispatcher \<Rightarrow> service_reference \<Rightarrow> dispatcher \<times> event list \<times> outcome" where
  "Dispatcher_export_service d svc_ref =
     (let d0 = d\<lparr>service_uids := setdefault (ref_id svc_ref) [] (service_uids d)\<rparr>
      in if exporters d0 = [] then (d0, [Logged LogWarning ''No exporters yet.''], Returned)
         else
           let xs = select_exporters d0 svc_ref
           in if xs = [] then (d0, [Logged LogWarning ''No exporter for %s''], Returned)
              else
                (case compute_endpoint_name (get_properties svc_ref) of
                   Inl e \<Rightarrow> (d0, [], Raised e)
                 | Inr nm \<Rightarrow>
                     (case export_loop svc_ref nm xs d0 of
                        (d1, eps, tr, Raised e) \<Rightarrow> (d1, tr, Raised e)
                      | (d1, eps, tr, Returned) \<Rightarrow>
                          if eps = []
                          then (d1, tr @ [Logged LogWarning ''No endpoint created for %s''], Returned)
                          else (case notify_listeners (listeners d1) (EndpointsAdded eps) of
                                  (tr2, out) \<Rightarrow> (d1, tr @ tr2, out)))))"

subsection \<open>Update\<close>

text \<open>
  The body of the loop over the UIDs of a service. When the exporter or the end point
  of the UID is missing, the handler logs and evaluates
  \<open>self.__service_uids[svc_ref].retain(uid)\<close>; the record is a built-in \<open>set\<close>, which has
  no attribute \<open>retain\<close>, so the attribute lookup raises \<open>AttributeError\<close>.
\<close>

definition update_uid ::
  "dispatcher \<Rightarrow> service_reference \<Rightarrow> props \<Rightarrow> string \<Rightarrow> event list \<times> outcome" where
  "update_uid d svc_ref old_properties u =
     (case map_of (uid_exporter d) u of
        None \<Rightarrow> ([Logged LogWarning ''No exporter for endpoint %s''], Raised AttributeError)
      | Some x \<Rightarrow>
          (case map_of (endpoints d) u of
             None \<Rightarrow> ([Logged LogWarning ''No exporter for endpoint %s''], Raised AttributeError)
           | Some ep \<Rightarrow>
               (case compute_endpoint_name (get_properties svc_ref) of
                  Inl e \<Rightarrow> ([], Raised e)
                | Inr new_name \<Rightarrow>
                    (case update_export x ep new_name old_properties of
                       Raised e \<Rightarrow>
                         if e = NameError
                         then (case notify_listeners (listeners d)
                                      (EndpointRemoved ep (Some old_properties)) of
                                 (tr, out) \<Rightarrow>
                                   (UpdateExportCall (exporter_id x) ep new_name old_properties
                                      # Logged LogError ''Error updating service properties: %s''
                                      # UnexportServiceCall (exporter_id x) ep # tr, out))
                         else ([UpdateExportCall (exporter_id x) ep new_name old_properties], Raised e)
                     | Returned \<Rightarrow>
                         (case notify_listeners (listeners d)
                                 (EndpointUpdated ep old_properties) of
                            (tr, out) \<Rightarrow>
                              (UpdateExportCall (exporter_id x) ep new_name old_properties # tr,
                               out))))))"

fun update_loop ::
  "dispatcher \<Rightarrow> service_reference \<Rightarrow> props \<Rightarrow> string list \<Rightarrow> event list \<times> outcome" where
  "update_loop d svc_ref old_properties [] = ([], Returned)"
| "update_loop d svc_ref old_properties (u # us) =
     (case update_uid d svc_ref old_properties u of
        (tr, Raised e) \<Rightarrow> (tr, Raised e)
      | (tr, Returned) \<Rightarrow>
          (case update_loop d svc_ref old_properties us of
             (tr', out) \<Rightarrow> (tr @ tr', out)))"

definition Dispatcher_update_service ::
  "dispatcher \<Rightarrow> service_reference \<Rightarrow> props \<Rightarrow> dispatcher \<times> event list \<times> outcome" where
  "Dispatcher_update_service d svc_ref old_properties =
     (case map_of (service_uids d) (ref_id svc_ref) of
        None \<Rightarrow> (d, [], Returned)
      | Some uids \<Rightarrow>
          (case update_loop d svc_ref old_properties uids of
             (tr, out) \<Rightarrow> (d, tr, out)))"

subsection \<open>Unexport\<close>

fun unexport_loop :: "string list \<Rightarrow> dispatcher \<Rightarrow> dispatcher \<times> event list" where
  "unexport_loop [] d = (d, [])"
| "unexport_loop (u # us) d =
     (case map_of (endpoints d) u of
        None \<Rightarrow>
          (case unexport_loop us d of
             (d', tr) \<Rightarrow> (d', Logged LogWarning ''Trying to remove a lost endpoint (%s)'' # tr))
      | Some ep \<Rightarrow>
          (let d1 = d\<lparr>endpoints := AList.delete u (endpoints d)\<rparr>
           in case map_of (uid_exporter d1) u of
                None \<Rightarrow>
                  (case unexport_loop us d1 of
                     (d', tr) \<Rightarrow>
                       (d', Logged LogWarning ''Trying to remove a lost endpoint (%s)'' # tr))
              | Some x \<Rightarrow>
                  (let d2 = d1\<lparr>uid_exporter := AList.delete u (uid_exporter d1)\<rparr>
                   in case unexport_loop us d2 of
                        (d', tr) \<Rightarrow>
                          (d', UnexportServiceCall (exporter_id x) ep
                                 # notify_listeners_guarded (listeners d2) (EndpointRemoved ep None)
                                 @ tr))))"

definition Dispatcher_unexport_service ::
  "dispatcher \<Rightarrow> service_reference \<Rightarrow> dispatcher \<times> event list \<times> outcome" where
  "Dispatcher_unexport_service d svc_ref =
     (case map_of (service_uids d) (ref_id svc_ref) of
        None \<Rightarrow> (d, [], Returned)
      | Some uids \<Rightarrow>
          (case unexport_loop uids
                  (d\<lparr>service_uids := AList.delete (ref_id svc_ref) (service_uids d)\<rparr>) of
             (d', tr) \<Rightarrow> (d', tr, Returned)))"

subsection \<open>Service events and listener binding\<close>

definition service_changed ::
  "dispatcher \<Rightarrow> service_event \<Rightarrow> dispatcher \<times> event list \<times> outcome" where
  "service_changed d ev =
     (let kind = get_kind ev; svc_ref = get_service_reference ev
      in if kind = REGISTERED then Dispatcher_export_service d svc_ref
         else if kind = MODIFIED
         then (if map_of (service_uids d) (ref_id svc_ref) = None
               then Dispatcher_export_service d svc_ref
               else Dispatcher_update_service d svc_ref (get_previous_properties ev))
         else if map_of (service_uids d) (ref_id svc_ref) \<noteq> None
                 \<and> (kind = UNREGISTERING \<or> kind = MODIFIED_ENDMATCH)
         then Dispatcher_unexport_service d svc_ref
         else (d, [], Returned))"

definition bind_listener :: "dispatcher \<Rightarrow> listener \<Rightarrow> event list \<times> outcome" where
  "bind_listener d l =
     (if endpoints d \<noteq> []
      then (case endpoints_added l (map snd (endpoints d)) of
              Raised e \<Rightarrow>
                ([ListenerCall (listener_id l) (EndpointsAdded (map snd (endpoints d))),
                  Logged LogError ''Error notifying newly bound listener: %s''], Returned)
            | Returned \<Rightarrow>
                ([ListenerCall (listener_id l) (EndpointsAdded (map snd (endpoints d)))], Returned))
      else ([], Returned))"

section \<open>The registry servlet\<close>

subsection \<open>Decoding the request body\<close>

text \<open>
  \<open>json.loads\<close> on a byte string. The decoder follows the scanner of the standard
  library: white space, the literals \<open>null\<close>, \<open>true\<close> and \<open>false\<close>, integers, strings with
  the one-letter escapes, arrays and objects (a repeated key keeps its first place and its
  last value). \<open>Malformed\<close> is the decoder raising \<open>ValueError\<close>. Documents the embedding
  has no value for (numbers with a fraction or an exponent, \<open>NaN\<close>, \<open>Infinity\<close>,
  \<open>\u\<close> escapes, bytes outside ASCII) are answered \<open>NotEmbedded\<close>; the interpreter's
  recursion limit is not modelled.
\<close>

datatype 'a scan = Scanned 'a string | Malformed | NotEmbedded

definition is_ws :: "char \<Rightarrow> bool" where
  "is_ws c = (c \<in> set [CHR 0x20, CHR 0x09, CHR 0x0A, CHR 0x0D])"

definition skip_ws :: "string \<Rightarrow> string" where
  "skip_ws s = dropWhile is_ws s"

definition is_digit :: "char \<Rightarrow> bool" where
  "is_digit c = (c \<in> set ''0123456789'')"

definition digit_value :: "char \<Rightarrow> int" where
  "digit_value c = int (of_char c) - 48"

fun scan_digits :: "int \<Rightarrow> string \<Rightarrow> int \<times> string" where
  "scan_digits acc [] = (acc, [])"
| "scan_digits acc (c # cs) =
     (if is_digit c then scan_digits (10 * acc + digit_value c) cs else (acc, c # cs))"

fun strip_prefix :: "string \<Rightarrow> string \<Rightarrow> string option" where
  "strip_prefix [] s = Some s"
| "strip_prefix (p # ps) [] = None"
| "strip_prefix (p # ps) (c # cs) = (if p = c then strip_prefix ps cs else None)"

text \<open>Whether a fraction \<open>\.\d+\<close> or an exponent \<open>[eE][-+]?\d+\<close> follows the integer part.\<close>

definition float_follows :: "string \<Rightarrow> bool" where
  "float_follows s =
     (case s of
        c # d # r \<Rightarrow>
          (c = CHR ''.'' \<and> is_digit d)
          \<or> ((c = CHR ''e'' \<or> c = CHR ''E'')
              \<and> (is_digit d
                  \<or> ((d = CHR ''+'' \<or> d = CHR ''-'')
                      \<and> (case r of f # _ \<Rightarrow> is_digit f | [] \<Rightarrow> False))))
      | _ \<Rightarrow> False)"

text \<open>A number \<open>-?(0|[1-9]\d*)\<close> at the head of the text.\<close>

definition scan_number :: "string \<Rightarrow> pyval scan" where
  "scan_number s =
     (let neg = (case s of c # _ \<Rightarrow> c = CHR ''-'' | [] \<Rightarrow> False);
          t = (if neg then tl s else s)
      in case t of
           [] \<Rightarrow> Malformed
         | c # cs \<Rightarrow>
             if \<not> is_digit c
             then (if neg \<and> strip_prefix ''Infinity'' t \<noteq> None then NotEmbedded else Malformed)
             else
               (case (if c = CHR ''0'' then (0, cs) else scan_digits 0 t) of
                  (n, rest) \<Rightarrow>
                    if float_follows rest then NotEmbedded
                    else Scanned (PInt (if neg then - n else n)) rest))"

definition unescape :: "char \<Rightarrow> char option" where
  "unescape e =
     (if e = CHR 0x22 then Some (CHR 0x22)
      else if e = CHR 0x5C then Some (CHR 0x5C)
      else if e = CHR ''/'' then Some (CHR ''/'')
      else if e = CHR ''b'' then Some (CHR 0x08)
      else if e = CHR ''f'' then Some (CHR 0x0C)
      else if e = CHR ''n'' then Some (CHR 0x0A)
      else if e = CHR ''r'' then Some (CHR 0x0D)
      else if e = CHR ''t'' then Some (CHR 0x09)
      else None)"

text \<open>The characters of a string after its opening quote, up to the closing quote.\<close>

fun scan_string :: "string \<Rightarrow> string scan" where
  "scan_string [] = Malformed"
| "scan_string [c] = (if c = CHR 0x22 then Scanned [] [] else Malformed)"
| "scan_string (c # e # cs) =
     (if c = CHR 0x22 then Scanned [] (e # cs)
      else if c = CHR 0x5C
      then (if e = CHR ''u'' then NotEmbedded
            else (case unescape e of
                    None \<Rightarrow> Malformed
                  | Some ch \<Rightarrow>
                      (case scan_string cs of
                         Scanned s r \<Rightarrow> Scanned (ch # s) r
                       | Malformed \<Rightarrow> Malformed
                       | NotEmbedded \<Rightarrow> NotEmbedded)))
      else if (of_char c :: nat) < 32 then Malformed
      else (case scan_string (e # cs) of
              Scanned s r \<Rightarrow> Scanned (c # s) r
            | Malformed \<Rightarrow> Malformed
            | NotEmbedded \<Rightarrow> NotEmbedded))"

text \<open>\<open>dict(pairs)\<close>\<close>

definition dict_of_pairs :: "(string \<times> pyval) list \<Rightarrow> props" where
  "dict_of_pairs kvs = foldl (\<lambda>d kv. AList.update (fst kv) (snd kv) d) [] kvs"

text \<open>
  The scanner proper. The first argument bounds the number of nested calls; \<open>json_loads\<close>
  starts it high enough for the text it is given.
\<close>

fun parse_value :: "nat \<Rightarrow> string \<Rightarrow> pyval scan"
  and parse_elements :: "nat \<Rightarrow> string \<Rightarrow> pyval list scan"
  and parse_members :: "nat \<Rightarrow> string \<Rightarrow> (string \<times> pyval) list scan" where
  "parse_value 0 s = NotEmbedded"
| "parse_value (Suc n) s =
     (case s of
        [] \<Rightarrow> Malformed
      | c # cs \<Rightarrow>
          if c = CHR 0x22
          then (case scan_string cs of
                  Scanned str r \<Rightarrow> Scanned (PStr str) r
                | Malformed \<Rightarrow> Malformed
                | NotEmbedded \<Rightarrow> NotEmbedded)
          else if c = CHR ''{''
          then (case skip_ws cs of
                  [] \<Rightarrow> Malformed
                | b # r \<Rightarrow>
                    if b = CHR ''}'' then Scanned (PDict []) r
                    else (case parse_members n (b # r) of
                            Scanned kvs r' \<Rightarrow> Scanned (PDict (dict_of_pairs kvs)) r'
                          | Malformed \<Rightarrow> Malformed
                          | NotEmbedded \<Rightarrow> NotEmbedded))
          else if c = CHR ''[''
          then (case skip_ws cs of
                  [] \<Rightarrow> Malformed
                | b # r \<Rightarrow>
                    if b = CHR '']'' then Scanned (PList []) r
                    else (case parse_elements n (b # r) of
                            Scanned vs r' \<Rightarrow> Scanned (PList vs) r'
                          | Malformed \<Rightarrow> Malformed
                          | NotEmbedded \<Rightarrow> NotEmbedded))
          else
            (case strip_prefix ''null'' s of
               Some r \<Rightarrow> Scanned PNone r
             | None \<Rightarrow>
                 (case strip_prefix ''true'' s of
                    Some r \<Rightarrow> Scanned (PBool True) r
                  | None \<Rightarrow>
                      (case strip_prefix ''false'' s of
                         Some r \<Rightarrow> Scanned (PBool False) r
                       | None \<Rightarrow>
                           if c = CHR ''-'' \<or> is_digit c then scan_number s
                           else if strip_prefix ''NaN'' s \<noteq> None
                                   \<or> strip_prefix ''Infinity'' s \<noteq> None
                           then NotEmbedded
                           else Malformed))))"
| "parse_elements 0 s = NotEmbedded"
| "parse_elements (Suc n) s =
     (case parse_value n s of
        Malformed \<Rightarrow> Malformed
      | NotEmbedded \<Rightarrow> NotEmbedded
      | Scanned v r \<Rightarrow>
          (case skip_ws r of
             [] \<Rightarrow> Malformed
           | b # r' \<Rightarrow>
               if b = CHR '']'' then Scanned [v] r'
               else if b = CHR '',''
               then (case parse_elements n (skip_ws r') of
                       Scanned vs r'' \<Rightarrow> Scanned (v # vs) r''
                     | Malformed \<Rightarrow> Malformed
                     | NotEmbedded \<Rightarrow> NotEmbedded)
               else Malformed))"
| "parse_members 0 s = NotEmbedded"
| "parse_members (Suc n) s =
     (case s of
        [] \<Rightarrow> Malformed
      | q # cs \<Rightarrow>
          if q \<noteq> CHR 0x22 then Malformed
          else
            (case scan_string cs of
               Malformed \<Rightarrow> Malformed
             | NotEmbedded \<Rightarrow> NotEmbedded
             | Scanned key r \<Rightarrow>
                 (case skip_ws r of
                    [] \<Rightarrow> Malformed
                  | colon # r1 \<Rightarrow>
                      if colon \<noteq> CHR '':'' then Malformed
                      else
                        (case parse_value n (skip_ws r1) of
                           Malformed \<Rightarrow> Malformed
                         | NotEmbedded \<Rightarrow> NotEmbedded
                         | Scanned v r2 \<Rightarrow>
                             (case skip_ws r2 of
                                [] \<Rightarrow> Malformed
                              | b # r3 \<Rightarrow>
                                  if b = CHR ''}'' then Scanned [(key, v)] r3
                                  else if b = CHR '',''
                                  then (case parse_members n (skip_ws r3) of
                                          Scanned kvs r4 \<Rightarrow> Scanned ((key, v) # kvs) r4
                                        | Malformed \<Rightarrow> Malformed
                                        | NotEmbedded \<Rightarrow> NotEmbedded)
                                  else Malformed)))))"

datatype loads_result = Loaded pyval | LoadValueError | LoadNotEmbedded

definition json_loads :: "string \<Rightarrow> loads_result" where
  "json_loads s =
     (if list_ex (\<lambda>c. 128 \<le> (of_char c :: nat)) s then LoadNotEmbedded
      else (case parse_value (2 * length s + 2) (skip_ws s) of
              NotEmbedded \<Rightarrow> LoadNotEmbedded
            | Malformed \<Rightarrow> LoadValueError
            | Scanned v r \<Rightarrow> if skip_ws r = [] then Loaded v else LoadValueError))"

subsection \<open>Ingesting end points\<close>

text \<open>
  Modelled from the spec: the import end point bean of \<open>pelix.remote.beans\<close> (outside the
  source file). Its constructor keeps the six arguments as they are given; \<open>server\<close> is
  set afterwards.
\<close>

record import_endpoint =
  import_uid :: pyval
  import_framework :: pyval
  import_configurations :: pyval
  import_name :: pyval
  import_specifications :: pyval
  import_properties :: props
  server :: string

definition filter_properties :: "pyval \<Rightarrow> props \<Rightarrow> props" where
  "filter_properties framework_uid ps =
     (let p1 = AList.update PROP_IMPORTED (PBool True) ps;
          p2 = (case map_of p1 PROP_EXPORTED_CONFIGS of
                  None \<Rightarrow> p1
                | Some v \<Rightarrow> AList.update PROP_IMPORTED_CONFIGS v p1);
          p3 = fold (\<lambda>nm p. if map_of p nm \<noteq> None then AList.delete nm p else p)
                 [PROP_EXPORTED_CONFIGS, PROP_EXPORTED_INTERFACES] p2
      in AList.update PROP_FRAMEWORK_UID framework_uid p3)"

text \<open>
  \<open>register_endpoint\<close> on the registry of imported end points (the list of the end points
  added so far). Subscripting something that is not a dictionary, or assigning into
  one, raises \<open>TypeError\<close>; a missing key raises \<open>KeyError\<close>.
\<close>

definition register_endpoint ::
  "string \<Rightarrow> pyval \<Rightarrow> import_endpoint list \<Rightarrow> import_endpoint list \<times> outcome" where
  "register_endpoint host_address endpoint_dict registry =
     (case endpoint_dict of
        PDict d \<Rightarrow>
          (case map_of d ''sender'' of
             None \<Rightarrow> (registry, Raised KeyError)
           | Some framework \<Rightarrow>
               (case map_of d ''properties'' of
                  None \<Rightarrow> (registry, Raised KeyError)
                | Some (PDict ps) \<Rightarrow>
                    (let filtered = filter_properties framework ps
                     in case (map_of d ''uid'', map_of d ''configurations'',
                              map_of d ''name'', map_of d ''specifications'') of
                          (Some u, Some c, Some n, Some s) \<Rightarrow>
                            (registry @
                               [\<lparr>import_uid = u, import_framework = framework,
                                 import_configurations = c, import_name = n,
                                 import_specifications = s, import_properties = filtered,
                                 server = host_address\<rparr>],
                             Returned)
                        | _ \<Rightarrow> (registry, Raised KeyError))
                | Some _ \<Rightarrow> (registry, Raised TypeError)))
      | _ \<Rightarrow> (registry, Raised TypeError))"

text \<open>The servlet's \<open>_fw_uid\<close> as an object: \<open>None\<close> until the component is validated.\<close>

definition sender_value :: "string option \<Rightarrow> pyval" where
  "sender_value sender = (case sender of None \<Rightarrow> PNone | Some s \<Rightarrow> PStr s)"

definition make_endpoint_dict :: "string option \<Rightarrow> export_endpoint \<Rightarrow> pyval" where
  "make_endpoint_dict sender ep =
     PDict [(''sender'', sender_value sender),
            (''uid'', PStr (uid ep)),
            (''configurations'', PList (map PStr (configurations ep))),
            (''name'', name ep),
            (''specifications'', PList (map PStr (specifications ep))),
            (''properties'', PDict (properties ep))]"

subsection \<open>POST\<close>

record request =
  get_path :: string
  read_data :: string
  get_client_address :: "string \<times> nat"

text \<open>\<open>s.split(sep)\<close> for a one-character separator: never the empty list.\<close>

fun py_split :: "char \<Rightarrow> string \<Rightarrow> string list" where
  "py_split sep [] = [[]]"
| "py_split sep (c # cs) =
     (if c = sep then [] # py_split sep cs
      else (case py_split sep cs of
              [] \<Rightarrow> [[c]]
            | p # ps \<Rightarrow> (c # p) # ps))"

text \<open>The items a \<open>for\<close> loop over an object visits.\<close>

fun py_iter :: "pyval \<Rightarrow> py_exception + pyval list" where
  "py_iter (PList xs) = Inr xs"
| "py_iter (PDict kvs) = Inr (map (\<lambda>kv. PStr (fst kv)) kvs)"
| "py_iter (PStr s) = Inr (map (\<lambda>c. PStr [c]) s)"
| "py_iter PNone = Inl TypeError"
| "py_iter (PBool b) = Inl TypeError"
| "py_iter (PInt n) = Inl TypeError"

fun register_all ::
  "string \<Rightarrow> pyval list \<Rightarrow> import_endpoint list \<Rightarrow> import_endpoint list \<times> outcome" where
  "register_all sender [] registry = (registry, Returned)"
| "register_all sender (e # es) registry =
     (case register_endpoint sender e registry of
        (registry', Raised ex) \<Rightarrow> (registry', Raised ex)
      | (registry', Returned) \<Rightarrow> register_all sender es registry')"

text \<open>
  The handler returns the registry, the response it sent (status, content, MIME type)
  if any, and how it ended; \<open>None\<close> when the body is outside the decoder's embedding.
\<close>

definition do_POST ::
  "import_endpoint list \<Rightarrow> request
     \<Rightarrow> (import_endpoint list \<times> (nat \<times> string \<times> string) option \<times> outcome) option" where
  "do_POST registry req =
     (let path_parts = py_split (CHR ''/'') (get_path req)
      in if last path_parts \<noteq> ''endpoints''
         then Some (registry, Some (404, ''Unhandled path'', ''text/plain''), Returned)
         else
           (case json_loads (read_data req) of
              LoadNotEmbedded \<Rightarrow> None
            | LoadValueError \<Rightarrow> Some (registry, None, Raised ValueError)
            | Loaded eps \<Rightarrow>
                if py_truthy eps
                then (case py_iter eps of
                        Inl e \<Rightarrow> Some (registry, None, Raised e)
                      | Inr items \<Rightarrow>
                          (case register_all (fst (get_client_address req)) items registry of
                             (registry', Raised e) \<Rightarrow> Some (registry', None, Raised e)
                           | (registry', Returned) \<Rightarrow>
                               Some (registry', Some (200, ''OK'', ''text/plain''), Returned)))
                else Some (registry, Some (200, ''OK'', ''text/plain''), Returned)))"

section \<open>Observations on traces\<close>

text \<open>The calls a trace makes on listeners, and on exporters' \<open>export_service\<close>.\<close>

fun listener_calls :: "event list \<Rightarrow> (nat \<times> notification) list" where
  "listener_calls [] = []"
| "listener_calls (ListenerCall i n # tr) = (i, n) # listener_calls tr"
| "listener_calls (_ # tr) = listener_calls tr"

fun export_calls :: "event list \<Rightarrow> nat list" where
  "export_calls [] = []"
| "export_calls (ExportServiceCall i r nm # tr) = i # export_calls tr"
| "export_calls (_ # tr) = export_calls tr"

section \<open>The end points of an export pass\<close>

text \<open>
  What an exporter hands back for a service, and the end points the exporters selected for
  a service hand back, in the order of the exporters.
\<close>

definition exported_by ::
  "service_reference \<Rightarrow> endpoint_name \<Rightarrow> string option \<Rightarrow> exporter \<Rightarrow> export_endpoint option" where
  "exported_by svc_ref nm fw x =
     (case export_service x svc_ref nm fw of Inr (Some ep) \<Rightarrow> Some ep | _ \<Rightarrow> None)"

definition created_endpoints :: "dispatcher \<Rightarrow> service_reference \<Rightarrow> export_endpoint list" where
  "created_endpoints d svc_ref =
     (case compute_endpoint_name (get_properties svc_ref) of
        Inl e \<Rightarrow> []
      | Inr nm \<Rightarrow> List.map_filter (exported_by svc_ref nm (fw_uid d)) (select_exporters d svc_ref))"

text \<open>The dispatcher after \<open>self.__service_uids.setdefault(svc_ref, set())\<close>.\<close>

definition record_service :: "dispatcher \<Rightarrow> service_reference \<Rightarrow> dispatcher" where
  "record_service d svc_ref = d\<lparr>service_uids := setdefault (ref_id svc_ref) [] (service_uids d)\<rparr>"

section \<open>Scenarios\<close>

text \<open>Concrete collaborators and dispatchers on which the theorems are instantiated.\<close>

definition ep_a :: export_endpoint where
  "ep_a = \<lparr>uid = ''uid-a'', name = PStr ''service_5'', configurations = [''jsonrpc''],
           specifications = [''sample.Service''],
           properties = [(''exported.configs'', PStr ''jsonrpc''), (''exported.interfaces'', PStr ''*'')]\<rparr>"

definition ep_b :: export_endpoint where
  "ep_b = \<lparr>uid = ''uid-b'', name = PStr ''service_5'', configurations = [''xmlrpc''],
           specifications = [''sample.Service''], properties = []\<rparr>"

definition jsonrpc_exporter :: exporter where
  "jsonrpc_exporter =
     \<lparr>exporter_id = 1, handles = (\<lambda>c. c = PStr ''jsonrpc''),
      export_service = (\<lambda>r nm fw. Inr (Some ep_a)),
      update_export = (\<lambda>ep nm old. Raised NameError)\<rparr>"

definition xmlrpc_exporter :: exporter where
  "xmlrpc_exporter =
     \<lparr>exporter_id = 2, handles = (\<lambda>c. c = PStr ''xmlrpc''),
      export_service = (\<lambda>r nm fw. Inr (Some ep_b)),
      update_export = (\<lambda>ep nm old. Returned)\<rparr>"

definition quiet_listener :: "nat \<Rightarrow> listener" where
  "quiet_listener i =
     \<lparr>listener_id = i, endpoints_added = (\<lambda>eps. Returned),
      endpoint_updated = (\<lambda>ep old. Returned), endpoint_removed = (\<lambda>ep old. Returned)\<rparr>"

definition failing_listener :: "nat \<Rightarrow> listener" where
  "failing_listener i =
     \<lparr>listener_id = i, endpoints_added = (\<lambda>eps. Raised OtherException),
      endpoint_updated = (\<lambda>ep old. Raised OtherException),
      endpoint_removed = (\<lambda>ep old. Raised OtherException)\<rparr>"

definition ref_any :: service_reference where
  "ref_any = \<lparr>ref_id = 5, ref_properties = [(''service.id'', PInt 5), (''exported.configs'', PStr ''*'')]\<rparr>"

definition ref_jsonrpc :: service_reference where
  "ref_jsonrpc = \<lparr>ref_id = 5, ref_properties = [(''service.id'', PInt 5), (''exported.configs'', PStr ''jsonrpc'')]\<rparr>"

definition empty_dispatcher :: dispatcher where
  "empty_dispatcher =
     \<lparr>exporters = [], listeners = [quiet_listener 1, quiet_listener 2], fw_uid = Some ''fw-1'',
      endpoints = [], uid_exporter = [], service_uids = []\<rparr>"

definition two_exporters :: dispatcher where
  "two_exporters = empty_dispatcher\<lparr>exporters := [jsonrpc_exporter, xmlrpc_exporter]\<rparr>"

definition ref_empty_configs :: service_reference where
  "ref_empty_configs =
     \<lparr>ref_id = 5,
      ref_properties = [(''service.id'', PInt 5), (''exported.interfaces'', PStr ''*''),
                        (''exported.configs'', PList [])]\<rparr>"

definition noisy_dispatcher :: dispatcher where
  "noisy_dispatcher = two_exporters\<lparr>listeners := [failing_listener 1, quiet_listener 2]\<rparr>"

text \<open>
  \<open>exported_dispatcher\<close> is \<open>two_exporters\<close> after the export of service 5 by both
  exporters. The two exporters hand out the same UIDs for every service, so exporting
  service 6 next gives \<open>shared_dispatcher\<close>, and unexporting service 5 then leaves
  \<open>stale_dispatcher\<close>: a record whose UIDs are no longer in the index.
\<close>

definition exported_dispatcher :: dispatcher where
  "exported_dispatcher =
     two_exporters\<lparr>endpoints := [(''uid-a'', ep_a), (''uid-b'', ep_b)],
                   uid_exporter := [(''uid-a'', jsonrpc_exporter), (''uid-b'', xmlrpc_exporter)],
                   service_uids := [(5, [''uid-a'', ''uid-b''])]\<rparr>"

definition ref_other :: service_reference where
  "ref_other = \<lparr>ref_id = 6, ref_properties = [(''service.id'', PInt 6), (''exported.configs'', PStr ''*'')]\<rparr>"

definition stale_dispatcher :: dispatcher where
  "stale_dispatcher = two_exporters\<lparr>service_uids := [(6, [''uid-a'', ''uid-b''])]\<rparr>"

definition shared_dispatcher :: dispatcher where
  "shared_dispatcher =
     exported_dispatcher\<lparr>service_uids := [(5, [''uid-a'', ''uid-b'']), (6, [''uid-a'', ''uid-b''])]\<rparr>"

text \<open>POST requests to the servlet: no body, the empty array, and \<open>null\<close> between blanks.\<close>

definition empty_post :: request where
  "empty_post = \<lparr>get_path = ''/pelix-dispatcher/endpoints'', read_data = '''',
                  get_client_address = (''10.0.0.2'', 40000)\<rparr>"

definition empty_array_post :: request where
  "empty_array_post = \<lparr>get_path = ''/pelix-dispatcher/endpoints'', read_data = ''[]'',
                        get_client_address = (''10.0.0.2'', 40000)\<rparr>"

definition null_post :: request where
  "null_post = \<lparr>get_path = ''/pelix-dispatcher/endpoints'', read_data = '' null '',
                 get_client_address = (''10.0.0.2'', 40000)\<rparr>"

section \<open>Properties\<close>

lemma setdefault_present: "map_of (setdefault k v d) k \<noteq> None"
  by (cases "map_of d k") (simp_all add: setdefault_def)

lemma listener_calls_append: "listener_calls (a @ b) = listener_calls a @ listener_calls b"
  by (induction a rule: listener_calls.induct) simp_all

lemma export_calls_append: "export_calls (a @ b) = export_calls a @ export_calls b"
  by (induction a rule: export_calls.induct) simp_all

lemma store_endpoint_frame:
  "listeners (store_endpoint rid x ep d) = listeners d"
  "fw_uid (store_endpoint rid x ep d) = fw_uid d"
  "exporters (store_endpoint rid x ep d) = exporters d"
  by (simp_all add: store_endpoint_def)

lemma exported_by_simps:
  "export_service x r nm fw = Inr None \<Longrightarrow> exported_by r nm fw x = None"
  "export_service x r nm fw = Inr (Some ep) \<Longrightarrow> exported_by r nm fw x = Some ep"
  "export_service x r nm fw = Inl e \<Longrightarrow> exported_by r nm fw x = None"
  by (simp_all add: exported_by_def)

lemma export_loop_Cons_cases:
  assumes "export_loop r nm (x # xs) d = (d', eps, tr, out)"
  obtains
    (declined) tr' where "export_service x r nm (fw_uid d) = Inr None"
      and "export_loop r nm xs d = (d', eps, tr', out)"
      and "tr = ExportServiceCall (exporter_id x) (ref_id r) nm # tr'"
  | (created) ep eps' tr' where "export_service x r nm (fw_uid d) = Inr (Some ep)"
      and "export_loop r nm xs (store_endpoint (ref_id r) x ep d) = (d', eps', tr', out)"
      and "eps = ep # eps'"
      and "tr = ExportServiceCall (exporter_id x) (ref_id r) nm # tr'"
  | (caught) e tr' where "export_service x r nm (fw_uid d) = Inl e"
      and "e = NameError \<or> e = BundleException"
      and "export_loop r nm xs d = (d', eps, tr', out)"
      and "tr = ExportServiceCall (exporter_id x) (ref_id r) nm
                  # Logged LogError ''Error exporting service: %s'' # tr'"
  | (escaped) e where "export_service x r nm (fw_uid d) = Inl e"
      and "e \<noteq> NameError" and "e \<noteq> BundleException"
      and "d' = d" and "eps = []" and "out = Raised e"
      and "tr = [ExportServiceCall (exporter_id x) (ref_id r) nm]"
  using assms
  by (simp split: sum.splits option.splits prod.splits if_splits)

lemma export_loop_frame:
  "export_loop r nm xs d = (d', eps, tr, out) \<Longrightarrow>
     listeners d' = listeners d \<and> fw_uid d' = fw_uid d \<and> exporters d' = exporters d
     \<and> listener_calls tr = []"
proof (induction xs arbitrary: d d' eps tr out)
  case Nil
  then show ?case by simp
next
  case (Cons x xs)
  from Cons.prems show ?case
  proof (cases rule: export_loop_Cons_cases)
    case (declined tr')
    from Cons.IH [OF declined(2)] declined(3) show ?thesis by simp
  next
    case (created ep eps' tr')
    from Cons.IH [OF created(2)] created(4) show ?thesis
      by (simp add: store_endpoint_frame)
  next
    case (caught e tr')
    from Cons.IH [OF caught(3)] caught(4) show ?thesis by simp
  next
    case (escaped e)
    then show ?thesis by simp
  qed
qed

lemma export_loop_returned:
  "export_loop r nm xs d = (d', eps, tr, Returned) \<Longrightarrow>
     eps = List.map_filter (exported_by r nm (fw_uid d)) xs \<and> export_calls tr = map exporter_id xs"
proof (induction xs arbitrary: d d' eps tr)
  case Nil
  then show ?case by (simp add: List.map_filter_simps)
next
  case (Cons x xs)
  from Cons.prems show ?case
  proof (cases rule: export_loop_Cons_cases)
    case (declined tr')
    from Cons.IH [OF declined(2)] declined(3) exported_by_simps(1) [OF declined(1)]
    show ?thesis by (simp add: List.map_filter_simps)
  next
    case (created ep eps' tr')
    from Cons.IH [OF created(2)] created(3,4) exported_by_simps(2) [OF created(1)]
    show ?thesis by (simp add: List.map_filter_simps store_endpoint_frame)
  next
    case (caught e tr')
    from Cons.IH [OF caught(3)] caught(4) exported_by_simps(3) [OF caught(1)]
    show ?thesis by (simp add: List.map_filter_simps)
  next
    case (escaped e)
    then show ?thesis by simp
  qed
qed

lemma export_loop_none_created:
  "List.map_filter (exported_by r nm (fw_uid d)) xs = [] \<Longrightarrow>
   export_loop r nm xs d = (d', eps, tr, out) \<Longrightarrow> eps = [] \<and> d' = d"
proof (induction xs arbitrary: d d' eps tr out)
  case Nil
  then show ?case by simp
next
  case (Cons x xs)
  from Cons.prems(2) show ?case
  proof (cases rule: export_loop_Cons_cases)
    case (declined tr')
    from Cons.prems(1) exported_by_simps(1) [OF declined(1)]
    have "List.map_filter (exported_by r nm (fw_uid d)) xs = []"
      by (simp add: List.map_filter_simps)
    from Cons.IH [OF this declined(2)] show ?thesis .
  next
    case (created ep eps' tr')
    from Cons.prems(1) exported_by_simps(2) [OF created(1)] show ?thesis
      by (simp add: List.map_filter_simps)
  next
    case (caught e tr')
    from Cons.prems(1) exported_by_simps(3) [OF caught(1)]
    have "List.map_filter (exported_by r nm (fw_uid d)) xs = []"
      by (simp add: List.map_filter_simps)
    from Cons.IH [OF this caught(3)] show ?thesis .
  next
    case (escaped e)
    then show ?thesis by simp
  qed
qed

lemma notify_listeners_returned:
  "notify_listeners ls n = (tr, Returned) \<Longrightarrow> tr = map (\<lambda>l. ListenerCall (listener_id l) n) ls"
proof (induction ls arbitrary: tr)
  case Nil
  then show ?case by simp
next
  case (Cons l ls)
  from Cons.prems obtain tr' where "notify_listeners ls n = (tr', Returned)"
    and "tr = ListenerCall (listener_id l) n # tr'"
    by (simp split: outcome.splits prod.splits) 
  with Cons.IH show ?case by simp
qed

lemma notify_listeners_all_return:
  "\<forall>l\<in>set ls. deliver l n = Returned \<Longrightarrow>
     notify_listeners ls n = (map (\<lambda>l. ListenerCall (listener_id l) n) ls, Returned)"
  by (induction ls) simp_all

lemma listener_calls_map:
  "listener_calls (map (\<lambda>l. ListenerCall (listener_id l) n) ls) = map (\<lambda>l. (listener_id l, n)) ls"
  by (induction ls) simp_all

lemma notify_listeners_only:
  "(i, m) \<in> set (listener_calls (fst (notify_listeners ls n))) \<Longrightarrow> m = n"
proof (induction ls)
  case Nil
  then show ?case by simp
next
  case (Cons l ls)
  show ?case
  proof (cases "deliver l n")
    case Returned
    with Cons.prems have "(i, m) = (listener_id l, n)
        \<or> (i, m) \<in> set (listener_calls (fst (notify_listeners ls n)))"
      by (simp split: prod.splits)
    with Cons.IH show ?thesis by blast
  next
    case (Raised e)
    with Cons.prems show ?thesis by simp
  qed
qed

lemma record_service_frame:
  "exporters (record_service d r) = exporters d"
  "listeners (record_service d r) = listeners d"
  "fw_uid (record_service d r) = fw_uid d"
  "select_exporters (record_service d r) r' = select_exporters d r'"
  by (simp_all add: record_service_def select_exporters_def Let_def)

lemma select_exporters_Nil: "exporters d = [] \<Longrightarrow> select_exporters d r = []"
  by (simp add: select_exporters_def Let_def)

lemma Dispatcher_export_service_cases:
  obtains
    (no_exporters) "exporters d = []"
      and "Dispatcher_export_service d r
             = (record_service d r, [Logged LogWarning ''No exporters yet.''], Returned)"
  | (no_match) "exporters d \<noteq> []" and "select_exporters d r = []"
      and "Dispatcher_export_service d r
             = (record_service d r, [Logged LogWarning ''No exporter for %s''], Returned)"
  | (no_name) e where "select_exporters d r \<noteq> []"
      and "compute_endpoint_name (get_properties r) = Inl e"
      and "Dispatcher_export_service d r = (record_service d r, [], Raised e)"
  | (loop_raised) nm d1 eps tr e where "compute_endpoint_name (get_properties r) = Inr nm"
      and "export_loop r nm (select_exporters d r) (record_service d r) = (d1, eps, tr, Raised e)"
      and "Dispatcher_export_service d r = (d1, tr, Raised e)"
      and "select_exporters d r \<noteq> []"
  | (none_created) nm d1 tr where "compute_endpoint_name (get_properties r) = Inr nm"
      and "export_loop r nm (select_exporters d r) (record_service d r) = (d1, [], tr, Returned)"
      and "Dispatcher_export_service d r
             = (d1, tr @ [Logged LogWarning ''No endpoint created for %s''], Returned)"
      and "select_exporters d r \<noteq> []"
  | (notified) nm d1 eps tr tr2 out where "compute_endpoint_name (get_properties r) = Inr nm"
      and "eps \<noteq> []"
      and "export_loop r nm (select_exporters d r) (record_service d r) = (d1, eps, tr, Returned)"
      and "notify_listeners (listeners d) (EndpointsAdded eps) = (tr2, out)"
      and "Dispatcher_export_service d r = (d1, tr @ tr2, out)"
      and "select_exporters d r \<noteq> []"
proof (cases "exporters d = []")
  case True
  then show ?thesis
    using no_exporters by (simp add: Dispatcher_export_service_def record_service_def)
next
  case ex: False
  show ?thesis
  proof (cases "select_exporters d r = []")
    case True
    with ex show ?thesis
      using no_match
      by (simp add: Dispatcher_export_service_def Let_def record_service_frame
          record_service_def [symmetric])
  next
    case sel: False
    show ?thesis
    proof (cases "compute_endpoint_name (get_properties r)")
      case (Inl e)
      with ex sel show ?thesis
        using no_name
        by (simp add: Dispatcher_export_service_def Let_def record_service_frame
            record_service_def [symmetric])
    next
      case (Inr nm)
      obtain d1 eps tr out where loop:
        "export_loop r nm (select_exporters d r) (record_service d r) = (d1, eps, tr, out)"
        by (cases "export_loop r nm (select_exporters d r) (record_service d r)") auto
      from export_loop_frame [OF loop] have ls: "listeners d1 = listeners d"
        by (simp add: record_service_frame)
      have unfold: "Dispatcher_export_service d r =
          (case out of
             Raised e \<Rightarrow> (d1, tr, Raised e)
           | Returned \<Rightarrow>
               if eps = []
               then (d1, tr @ [Logged LogWarning ''No endpoint created for %s''], Returned)
               else (case notify_listeners (listeners d) (EndpointsAdded eps) of
                       (tr2, out) \<Rightarrow> (d1, tr @ tr2, out)))"
        using ex sel Inr loop ls
        by (simp add: Dispatcher_export_service_def Let_def record_service_frame
            record_service_def [symmetric] split: outcome.splits)
      show ?thesis
      proof (cases out)
        case Returned
        show ?thesis
        proof (cases "eps = []")
          case True
          with Returned unfold loop Inr sel show ?thesis using none_created by simp
        next
          case False
          obtain tr2 out2 where n: "notify_listeners (listeners d) (EndpointsAdded eps) = (tr2, out2)"
            by (cases "notify_listeners (listeners d) (EndpointsAdded eps)") auto
          with False Returned unfold loop Inr sel show ?thesis using notified by simp
        qed
      next
        case (Raised e)
        with unfold loop Inr sel show ?thesis using loop_raised by simp
      qed
    qed
  qed
qed

text \<open>
  Claim C1. An export pass with no exporter only logs a warning. A pass that creates no
  end point calls no listener. A pass that returns and has created end points calls every
  listener exactly once, with \<open>endpoints_added\<close> and the list of all the end points
  created in the pass.
\<close>

theorem export_notifies_once:
  "(exporters d = [] \<longrightarrow>
      snd (Dispatcher_export_service d svc_ref) = ([Logged LogWarning ''No exporters yet.''], Returned))
   \<and> (created_endpoints d svc_ref = [] \<longrightarrow>
      listener_calls (fst (snd (Dispatcher_export_service d svc_ref))) = [])
   \<and> (snd (snd (Dispatcher_export_service d svc_ref)) = Returned
        \<and> created_endpoints d svc_ref \<noteq> [] \<longrightarrow>
      listener_calls (fst (snd (Dispatcher_export_service d svc_ref)))
        = map (\<lambda>l. (listener_id l, EndpointsAdded (created_endpoints d svc_ref))) (listeners d))"
proof (cases d svc_ref rule: Dispatcher_export_service_cases)
  case no_exporters
  then show ?thesis
    by (simp add: created_endpoints_def select_exporters_Nil List.map_filter_simps
        split: sum.splits)
next
  case no_match
  then show ?thesis
    by (simp add: created_endpoints_def List.map_filter_simps split: sum.splits)
next
  case (no_name e)
  then show ?thesis by (auto simp: created_endpoints_def dest: select_exporters_Nil)
next
  case (loop_raised nm d1 eps tr e)
  from export_loop_frame [OF loop_raised(2)] have "listener_calls tr = []" by simp
  with loop_raised show ?thesis
    by (auto dest: select_exporters_Nil)
next
  case (none_created nm d1 tr)
  from export_loop_frame [OF none_created(2)] have "listener_calls tr = []" by simp
  moreover from export_loop_returned [OF none_created(2)]
  have "created_endpoints d svc_ref = []"
    using none_created(1) by (simp add: created_endpoints_def record_service_frame)
  ultimately show ?thesis
    using none_created by (auto simp: listener_calls_append dest: select_exporters_Nil)
next
  case (notified nm d1 eps tr tr2 out)
  from export_loop_frame [OF notified(3)] have tr: "listener_calls tr = []" by simp
  from export_loop_returned [OF notified(3)]
  have eps: "created_endpoints d svc_ref = eps"
    using notified(1) by (simp add: created_endpoints_def record_service_frame)
  have ne: "exporters d \<noteq> []"
    using eps notified(2)
    by (auto simp: created_endpoints_def select_exporters_Nil List.map_filter_simps
        split: sum.splits)
  have "out = Returned \<Longrightarrow> listener_calls tr2
          = map (\<lambda>l. (listener_id l, EndpointsAdded eps)) (listeners d)"
    using notify_listeners_returned [of "listeners d" "EndpointsAdded eps" tr2] notified(4)
    by (simp add: listener_calls_map)
  with notified(2,5) tr eps ne show ?thesis
    by (simp add: listener_calls_append)
qed

lemmas eval_defs =
  Dispatcher_export_service_def Dispatcher_update_service_def Dispatcher_unexport_service_def
  select_exporters_def get_property_def get_properties_def compute_endpoint_name_def
  store_endpoint_def setdefault_def set_add_def update_uid_def service_changed_def
  bind_listener_def created_endpoints_def exported_by_def
  PROP_EXPORTED_CONFIGS_def PROP_ENDPOINT_NAME_def SERVICE_ID_def Let_def
  ep_a_def ep_b_def jsonrpc_exporter_def xmlrpc_exporter_def quiet_listener_def
  failing_listener_def ref_any_def ref_jsonrpc_def empty_dispatcher_def two_exporters_def

theorem export_notifies_once_witness:
  "snd (Dispatcher_export_service empty_dispatcher ref_any)
     = ([Logged LogWarning ''No exporters yet.''], Returned)
   \<and> snd (snd (Dispatcher_export_service two_exporters ref_any)) = Returned
   \<and> created_endpoints two_exporters ref_any = [ep_a, ep_b]
   \<and> listener_calls (fst (snd (Dispatcher_export_service two_exporters ref_any)))
       = [(1, EndpointsAdded [ep_a, ep_b]), (2, EndpointsAdded [ep_a, ep_b])]"
proof -
  have none: "exporters empty_dispatcher = []"
    by (simp add: empty_dispatcher_def)
  have ret: "snd (snd (Dispatcher_export_service two_exporters ref_any)) = Returned"
    by (simp add: eval_defs)
  have created: "created_endpoints two_exporters ref_any = [ep_a, ep_b]"
    by (simp add: eval_defs)
  have ls: "listeners two_exporters = [quiet_listener 1, quiet_listener 2]"
    by (simp add: two_exporters_def empty_dispatcher_def)
  have ids: "listener_id (quiet_listener 1) = 1" "listener_id (quiet_listener 2) = 2"
    by (simp_all add: quiet_listener_def)
  from export_notifies_once [of empty_dispatcher ref_any] none
       export_notifies_once [of two_exporters ref_any] ret created ls ids
  show ?thesis by simp
qed

lemma export_calls_notify: "export_calls (fst (notify_listeners ls n)) = []"
  by (induction ls) (auto split: outcome.splits prod.splits)

lemma export_calls_selected:
  assumes "snd (snd (Dispatcher_export_service d r)) = Returned"
  shows "export_calls (fst (snd (Dispatcher_export_service d r)))
           = map exporter_id (select_exporters d r)"
proof (cases d r rule: Dispatcher_export_service_cases)
  case no_exporters
  then show ?thesis by (simp add: select_exporters_Nil)
next
  case no_match
  then show ?thesis by simp
next
  case (no_name e)
  with assms show ?thesis by simp
next
  case (loop_raised nm d1 eps tr e)
  with assms show ?thesis by simp
next
  case (none_created nm d1 tr)
  from export_loop_returned [OF none_created(2)] none_created(3) show ?thesis
    by (simp add: export_calls_append)
next
  case (notified nm d1 eps tr tr2 out)
  from export_calls_notify [of "listeners d" "EndpointsAdded eps"] notified(4)
  have "export_calls tr2 = []" by simp
  with export_loop_returned [OF notified(3)] notified(5) show ?thesis
    by (simp add: export_calls_append)
qed

text \<open>
  Claim C8, amended. In an export pass that returns: when \<open>exported.configs\<close> is absent,
  or present with a false truth value (\<open>None\<close>, an empty string or list, \<open>0\<close>, \<open>False\<close>), or
  \<open>"*"\<close>, every registered exporter is asked to export, in order; otherwise exactly the
  exporters whose \<open>handles(configs)\<close> is true are asked.
\<close>

theorem export_asks_selected:
  assumes "snd (snd (Dispatcher_export_service d svc_ref)) = Returned"
  shows "(map_of (ref_properties svc_ref) PROP_EXPORTED_CONFIGS = None \<longrightarrow>
            export_calls (fst (snd (Dispatcher_export_service d svc_ref)))
              = map exporter_id (exporters d))
       \<and> (\<forall>v. map_of (ref_properties svc_ref) PROP_EXPORTED_CONFIGS = Some v
                \<and> (\<not> py_truthy v \<or> v = PStr ''*'') \<longrightarrow>
            export_calls (fst (snd (Dispatcher_export_service d svc_ref)))
              = map exporter_id (exporters d))
       \<and> (\<forall>v. map_of (ref_properties svc_ref) PROP_EXPORTED_CONFIGS = Some v
                \<and> py_truthy v \<and> v \<noteq> PStr ''*'' \<longrightarrow>
            export_calls (fst (snd (Dispatcher_export_service d svc_ref)))
              = map exporter_id (filter (\<lambda>x. handles x v) (exporters d)))"
  using export_calls_selected [OF assms]
  by (auto simp: select_exporters_def get_property_def Let_def)

theorem export_asks_selected_witness:
  "snd (snd (Dispatcher_export_service two_exporters ref_jsonrpc)) = Returned
   \<and> map_of (ref_properties ref_jsonrpc) PROP_EXPORTED_CONFIGS = Some (PStr ''jsonrpc'')
   \<and> export_calls (fst (snd (Dispatcher_export_service two_exporters ref_jsonrpc))) = [1]
   \<and> endpoints (fst (Dispatcher_export_service two_exporters ref_jsonrpc)) = [(''uid-a'', ep_a)]
   \<and> snd (snd (Dispatcher_export_service two_exporters ref_any)) = Returned
   \<and> export_calls (fst (snd (Dispatcher_export_service two_exporters ref_any))) = [1, 2]"
proof -
  have ret: "snd (snd (Dispatcher_export_service two_exporters ref_jsonrpc)) = Returned"
    by (simp add: eval_defs)
  have cfg: "map_of (ref_properties ref_jsonrpc) PROP_EXPORTED_CONFIGS = Some (PStr ''jsonrpc'')"
    by (simp add: eval_defs)
  have sel: "map exporter_id (filter (\<lambda>x. handles x (PStr ''jsonrpc'')) (exporters two_exporters)) = [1]"
    by (simp add: eval_defs)
  have eps: "endpoints (fst (Dispatcher_export_service two_exporters ref_jsonrpc)) = [(''uid-a'', ep_a)]"
    by (simp add: eval_defs)
  have ret2: "snd (snd (Dispatcher_export_service two_exporters ref_any)) = Returned"
    by (simp add: eval_defs)
  have cfg2: "map_of (ref_properties ref_any) PROP_EXPORTED_CONFIGS = Some (PStr ''*'')"
    by (simp add: eval_defs)
  have all: "map exporter_id (exporters two_exporters) = [1, 2]"
    by (simp add: eval_defs)
  from export_asks_selected [OF ret] cfg sel
  have "export_calls (fst (snd (Dispatcher_export_service two_exporters ref_jsonrpc))) = [1]"
    by simp
  moreover from export_asks_selected [OF ret2] cfg2 all
  have "export_calls (fst (snd (Dispatcher_export_service two_exporters ref_any))) = [1, 2]"
    by simp
  ultimately show ?thesis using ret cfg eps ret2 by simp
qed

text \<open>
  Claim C8 as stated fails: \<open>exported.configs\<close> is present and is the empty list, no
  exporter handles it, and both exporters are asked to export all the same.
\<close>

theorem export_empty_configs_asks_all:
  "map_of (ref_properties ref_empty_configs) PROP_EXPORTED_CONFIGS = Some (PList [])
   \<and> filter (\<lambda>x. handles x (PList [])) (exporters two_exporters) = []
   \<and> export_calls (fst (snd (Dispatcher_export_service two_exporters ref_empty_configs))) = [1, 2]
   \<and> snd (snd (Dispatcher_export_service two_exporters ref_empty_configs)) = Returned"
  by (simp add: eval_defs ref_empty_configs_def)

text \<open>
  Claim C5 fails in the export path: the first listener raises, the exception leaves
  \<open>__export_service\<close>, nothing is logged and the second listener is never called.
\<close>

theorem export_listener_failure_escapes:
  "snd (Dispatcher_export_service noisy_dispatcher ref_jsonrpc)
     = ([ExportServiceCall 1 5 (ServiceName (PInt 5)), ListenerCall 1 (EndpointsAdded [ep_a])],
        Raised OtherException)"
  by (simp add: eval_defs noisy_dispatcher_def)

lemma store_endpoint_keeps_key:
  "map_of (service_uids d) k \<noteq> None \<Longrightarrow>
     map_of (service_uids (store_endpoint rid x ep d)) k \<noteq> None"
  by (auto simp: store_endpoint_def map_of_map_entry split: option.splits)

lemma export_loop_keeps_key:
  "export_loop r nm xs d = (d', eps, tr, out) \<Longrightarrow> map_of (service_uids d) k \<noteq> None \<Longrightarrow>
     map_of (service_uids d') k \<noteq> None"
proof (induction xs arbitrary: d d' eps tr out)
  case Nil
  then show ?case by simp
next
  case (Cons x xs)
  from Cons.prems(1) show ?case
  proof (cases rule: export_loop_Cons_cases)
    case (declined tr')
    from Cons.IH [OF declined(2) Cons.prems(2)] show ?thesis .
  next
    case (created ep eps' tr')
    from Cons.IH [OF created(2) store_endpoint_keeps_key [OF Cons.prems(2)]] show ?thesis .
  next
    case (caught e tr')
    from Cons.IH [OF caught(3) Cons.prems(2)] show ?thesis .
  next
    case (escaped e)
    with Cons.prems(2) show ?thesis by simp
  qed
qed

lemma record_service_key: "map_of (service_uids (record_service d r)) (ref_id r) \<noteq> None"
  by (simp add: record_service_def setdefault_present)

lemma record_service_fresh:
  "map_of (service_uids d) (ref_id r) = None \<Longrightarrow>
     map_of (service_uids (record_service d r)) (ref_id r) = Some []"
  by (simp add: record_service_def setdefault_def map_add_def)

lemma export_records_key:
  "map_of (service_uids (fst (Dispatcher_export_service d r))) (ref_id r) \<noteq> None"
proof (cases d r rule: Dispatcher_export_service_cases)
  case no_exporters
  then show ?thesis by (simp add: record_service_key)
next
  case no_match
  then show ?thesis by (simp add: record_service_key)
next
  case (no_name e)
  then show ?thesis by (simp add: record_service_key)
next
  case (loop_raised nm d1 eps tr e)
  from export_loop_keeps_key [OF loop_raised(2) record_service_key] loop_raised(3)
  show ?thesis by simp
next
  case (none_created nm d1 tr)
  from export_loop_keeps_key [OF none_created(2) record_service_key] none_created(3)
  show ?thesis by simp
next
  case (notified nm d1 eps tr tr2 out)
  from export_loop_keeps_key [OF notified(3) record_service_key] notified(5)
  show ?thesis by simp
qed

lemma export_nothing_created:
  assumes "created_endpoints d r = []"
  shows "fst (Dispatcher_export_service d r) = record_service d r"
proof (cases d r rule: Dispatcher_export_service_cases)
  case no_exporters
  then show ?thesis by simp
next
  case no_match
  then show ?thesis by simp
next
  case (no_name e)
  then show ?thesis by simp
next
  case (loop_raised nm d1 eps tr e)
  from assms loop_raised(1)
  have "List.map_filter (exported_by r nm (fw_uid (record_service d r))) (select_exporters d r) = []"
    by (simp add: created_endpoints_def record_service_frame)
  from export_loop_none_created [OF this loop_raised(2)] loop_raised(3) show ?thesis by simp
next
  case (none_created nm d1 tr)
  from assms none_created(1)
  have "List.map_filter (exported_by r nm (fw_uid (record_service d r))) (select_exporters d r) = []"
    by (simp add: created_endpoints_def record_service_frame)
  from export_loop_none_created [OF this none_created(2)] none_created(3) show ?thesis by simp
next
  case (notified nm d1 eps tr tr2 out)
  from assms notified(1)
  have "List.map_filter (exported_by r nm (fw_uid (record_service d r))) (select_exporters d r) = []"
    by (simp add: created_endpoints_def record_service_frame)
  from export_loop_none_created [OF this notified(3)] notified(5) show ?thesis by simp
qed

text \<open>
  Claim C10. After an export pass, however it ended, the service reference is a key of
  the record map. A later MODIFIED event for that reference is therefore handled by the
  update path; and when the reference was new and the pass created no end point, the
  record is the empty set and the update does nothing.
\<close>

theorem export_keeps_record:
  "map_of (service_uids (fst (Dispatcher_export_service d svc_ref))) (ref_id svc_ref) \<noteq> None
   \<and> (ref_id r = ref_id svc_ref \<longrightarrow>
        service_changed (fst (Dispatcher_export_service d svc_ref))
            \<lparr>get_kind = MODIFIED, get_service_reference = r, get_previous_properties = old\<rparr>
          = Dispatcher_update_service (fst (Dispatcher_export_service d svc_ref)) r old)
   \<and> (ref_id r = ref_id svc_ref \<and> map_of (service_uids d) (ref_id svc_ref) = None
        \<and> created_endpoints d svc_ref = [] \<longrightarrow>
        map_of (service_uids (fst (Dispatcher_export_service d svc_ref))) (ref_id svc_ref) = Some []
        \<and> Dispatcher_update_service (fst (Dispatcher_export_service d svc_ref)) r old
            = (fst (Dispatcher_export_service d svc_ref), [], Returned))"
proof (intro conjI impI)
  show key: "map_of (service_uids (fst (Dispatcher_export_service d svc_ref))) (ref_id svc_ref) \<noteq> None"
    by (rule export_records_key)
  {
    assume "ref_id r = ref_id svc_ref"
    with key show "service_changed (fst (Dispatcher_export_service d svc_ref))
            \<lparr>get_kind = MODIFIED, get_service_reference = r, get_previous_properties = old\<rparr>
          = Dispatcher_update_service (fst (Dispatcher_export_service d svc_ref)) r old"
      by (auto simp: service_changed_def)
  }
  {
    assume h: "ref_id r = ref_id svc_ref \<and> map_of (service_uids d) (ref_id svc_ref) = None
        \<and> created_endpoints d svc_ref = []"
    then have st: "fst (Dispatcher_export_service d svc_ref) = record_service d svc_ref"
      by (simp add: export_nothing_created)
    with h show empty:
      "map_of (service_uids (fst (Dispatcher_export_service d svc_ref))) (ref_id svc_ref) = Some []"
      by (simp add: record_service_fresh)
    with h show "Dispatcher_update_service (fst (Dispatcher_export_service d svc_ref)) r old
            = (fst (Dispatcher_export_service d svc_ref), [], Returned)"
      by (simp add: Dispatcher_update_service_def)
  }
qed

theorem export_keeps_record_witness:
  "map_of (service_uids (fst (Dispatcher_export_service empty_dispatcher ref_any))) 5 = Some []
   \<and> service_changed (fst (Dispatcher_export_service empty_dispatcher ref_any))
        \<lparr>get_kind = MODIFIED, get_service_reference = ref_jsonrpc, get_previous_properties = []\<rparr>
      = (fst (Dispatcher_export_service empty_dispatcher ref_any), [], Returned)"
proof -
  have ids: "ref_id ref_jsonrpc = ref_id ref_any" "ref_id ref_any = 5"
    by (simp_all add: ref_jsonrpc_def ref_any_def)
  have fresh: "map_of (service_uids empty_dispatcher) (ref_id ref_any) = None"
    by (simp add: empty_dispatcher_def)
  have none: "created_endpoints empty_dispatcher ref_any = []"
    by (simp add: eval_defs)
  from export_keeps_record [of empty_dispatcher ref_any ref_jsonrpc "[]"] ids fresh none
  show ?thesis by simp
qed

lemma unexport_loop_state:
  "fst (unexport_loop (u # us) d) =
     fst (unexport_loop us
       (case map_of (endpoints d) u of
          None \<Rightarrow> d
        | Some ep \<Rightarrow>
            (case map_of (uid_exporter d) u of
               None \<Rightarrow> d\<lparr>endpoints := AList.delete u (endpoints d)\<rparr>
             | Some x \<Rightarrow> d\<lparr>endpoints := AList.delete u (endpoints d),
                            uid_exporter := AList.delete u (uid_exporter d)\<rparr>)))"
  by (simp add: Let_def split: option.splits prod.splits)

lemma unexport_loop_frame:
  "service_uids (fst (unexport_loop us d)) = service_uids d"
proof (induction us arbitrary: d)
  case Nil
  then show ?case by simp
next
  case (Cons u us)
  show ?case
    unfolding unexport_loop_state Cons.IH
    by (simp split: option.splits)
qed

lemma unexport_loop_stays_removed:
  "map_of (endpoints d) v = None \<Longrightarrow> map_of (endpoints (fst (unexport_loop us d))) v = None"
proof (induction us arbitrary: d)
  case Nil
  then show ?case by simp
next
  case (Cons u us)
  show ?case
    unfolding unexport_loop_state
    by (rule Cons.IH) (use Cons.prems in \<open>simp add: delete_conv split: option.splits\<close>)
qed

lemma unexport_loop_removes:
  "v \<in> set us \<Longrightarrow> map_of (endpoints (fst (unexport_loop us d))) v = None"
proof (induction us arbitrary: d)
  case Nil
  then show ?case by simp
next
  case (Cons u us)
  show ?case
  proof (cases "v = u")
    case True
    show ?thesis
      unfolding unexport_loop_state
      by (rule unexport_loop_stays_removed) (simp add: True delete_conv split: option.splits)
  next
    case False
    with Cons.prems have "v \<in> set us" by simp
    then show ?thesis
      unfolding unexport_loop_state by (rule Cons.IH)
  qed
qed

lemma unexport_no_record:
  "map_of (service_uids d) (ref_id r) = None \<Longrightarrow> Dispatcher_unexport_service d r = (d, [], Returned)"
  by (simp add: Dispatcher_unexport_service_def)

lemma update_no_record:
  "map_of (service_uids d) (ref_id r) = None \<Longrightarrow> Dispatcher_update_service d r old = (d, [], Returned)"
  by (simp add: Dispatcher_update_service_def)

lemma unexport_state:
  "map_of (service_uids d) (ref_id r) = Some uids \<Longrightarrow>
     fst (Dispatcher_unexport_service d r)
       = fst (unexport_loop uids (d\<lparr>service_uids := AList.delete (ref_id r) (service_uids d)\<rparr>))"
  by (auto simp: Dispatcher_unexport_service_def split: prod.splits)

lemma unexport_pops_record:
  "map_of (service_uids (fst (Dispatcher_unexport_service d r))) (ref_id r) = None"
proof (cases "map_of (service_uids d) (ref_id r)")
  case None
  then show ?thesis by (simp add: unexport_no_record)
next
  case (Some uids)
  then show ?thesis
    by (simp add: unexport_state unexport_loop_frame delete_conv)
qed

lemma unexport_returns: "snd (snd (Dispatcher_unexport_service d r)) = Returned"
  by (simp add: Dispatcher_unexport_service_def split: option.splits prod.splits)

text \<open>
  Claim C4. Unexporting never raises and pops the whole record of the service; every
  UID of the record is gone from the end point map afterwards. A second unexport finds no
  record and does nothing: same state, empty trace, normal return. The same holds for any
  unexport or update of a service that has no record.
\<close>

theorem unexport_twice:
  "snd (snd (Dispatcher_unexport_service d svc_ref)) = Returned
   \<and> map_of (service_uids (fst (Dispatcher_unexport_service d svc_ref))) (ref_id svc_ref) = None
   \<and> (\<forall>uids u. map_of (service_uids d) (ref_id svc_ref) = Some uids \<and> u \<in> set uids \<longrightarrow>
         map_of (endpoints (fst (Dispatcher_unexport_service d svc_ref))) u = None)
   \<and> Dispatcher_unexport_service (fst (Dispatcher_unexport_service d svc_ref)) svc_ref
       = (fst (Dispatcher_unexport_service d svc_ref), [], Returned)
   \<and> (map_of (service_uids d) (ref_id svc_ref) = None \<longrightarrow>
         Dispatcher_unexport_service d svc_ref = (d, [], Returned)
         \<and> Dispatcher_update_service d svc_ref old = (d, [], Returned))"
proof (intro conjI allI impI)
  show "snd (snd (Dispatcher_unexport_service d svc_ref)) = Returned"
    by (rule unexport_returns)
  show popped:
    "map_of (service_uids (fst (Dispatcher_unexport_service d svc_ref))) (ref_id svc_ref) = None"
    by (rule unexport_pops_record)
  show "Dispatcher_unexport_service (fst (Dispatcher_unexport_service d svc_ref)) svc_ref
       = (fst (Dispatcher_unexport_service d svc_ref), [], Returned)"
    using popped by (rule unexport_no_record)
next
  fix uids u
  assume "map_of (service_uids d) (ref_id svc_ref) = Some uids \<and> u \<in> set uids"
  then show "map_of (endpoints (fst (Dispatcher_unexport_service d svc_ref))) u = None"
    by (simp add: unexport_state unexport_loop_removes)
next
  assume "map_of (service_uids d) (ref_id svc_ref) = None"
  then show "Dispatcher_unexport_service d svc_ref = (d, [], Returned)"
    and "Dispatcher_update_service d svc_ref old = (d, [], Returned)"
    by (simp_all add: unexport_no_record update_no_record)
qed

lemma exported_dispatcher_reached:
  "fst (Dispatcher_export_service two_exporters ref_any) = exported_dispatcher"
  by (simp add: eval_defs exported_dispatcher_def)

theorem unexport_twice_witness:
  "map_of (service_uids exported_dispatcher) 5 = Some [''uid-a'', ''uid-b'']
   \<and> map_of (endpoints (fst (Dispatcher_unexport_service exported_dispatcher ref_any))) ''uid-a'' = None
   \<and> map_of (endpoints (fst (Dispatcher_unexport_service exported_dispatcher ref_any))) ''uid-b'' = None
   \<and> Dispatcher_unexport_service (fst (Dispatcher_unexport_service exported_dispatcher ref_any)) ref_any
       = (fst (Dispatcher_unexport_service exported_dispatcher ref_any), [], Returned)
   \<and> Dispatcher_unexport_service empty_dispatcher ref_any = (empty_dispatcher, [], Returned)
   \<and> Dispatcher_update_service empty_dispatcher ref_any [] = (empty_dispatcher, [], Returned)"
proof -
  have r: "ref_id ref_any = 5" by (simp add: ref_any_def)
  have rec: "map_of (service_uids exported_dispatcher) 5 = Some [''uid-a'', ''uid-b'']"
    by (simp add: exported_dispatcher_def)
  have none: "map_of (service_uids empty_dispatcher) 5 = None"
    by (simp add: empty_dispatcher_def)
  from unexport_twice [of exported_dispatcher ref_any "[]"] rec r
  have "map_of (endpoints (fst (Dispatcher_unexport_service exported_dispatcher ref_any))) ''uid-a'' = None"
    and "map_of (endpoints (fst (Dispatcher_unexport_service exported_dispatcher ref_any))) ''uid-b'' = None"
    and "Dispatcher_unexport_service (fst (Dispatcher_unexport_service exported_dispatcher ref_any)) ref_any
       = (fst (Dispatcher_unexport_service exported_dispatcher ref_any), [], Returned)"
    by simp_all
  moreover from unexport_twice [of empty_dispatcher ref_any "[]"] none r
  have "Dispatcher_unexport_service empty_dispatcher ref_any = (empty_dispatcher, [], Returned)"
    and "Dispatcher_update_service empty_dispatcher ref_any [] = (empty_dispatcher, [], Returned)"
    by simp_all
  ultimately show ?thesis using rec by simp
qed

text \<open>
  Claim C9. Binding a listener never raises. With an empty index the listener is not
  called. With a non-empty index it is called exactly once, with \<open>endpoints_added\<close> and the
  list of the values of the index, which holds every end point a lookup can return; when
  that call raises, the failure is logged.
\<close>

theorem bind_listener_snapshot:
  "snd (bind_listener d l) = Returned
   \<and> (endpoints d = [] \<longrightarrow> fst (bind_listener d l) = [])
   \<and> (endpoints d \<noteq> [] \<longrightarrow>
        listener_calls (fst (bind_listener d l))
          = [(listener_id l, EndpointsAdded (map snd (endpoints d)))]
        \<and> length (map snd (endpoints d)) = length (endpoints d)
        \<and> (\<forall>u ep. map_of (endpoints d) u = Some ep \<longrightarrow> ep \<in> set (map snd (endpoints d))))
   \<and> (\<forall>e. endpoints d \<noteq> [] \<and> endpoints_added l (map snd (endpoints d)) = Raised e \<longrightarrow>
        fst (bind_listener d l)
          = [ListenerCall (listener_id l) (EndpointsAdded (map snd (endpoints d))),
             Logged LogError ''Error notifying newly bound listener: %s''])"
proof -
  have "ep \<in> set (map snd (endpoints d))" if "map_of (endpoints d) u = Some ep" for u ep
    using map_of_SomeD [OF that] by force
  then show ?thesis
    by (simp add: bind_listener_def split: outcome.splits)
qed

theorem bind_listener_snapshot_witness:
  "listener_calls (fst (bind_listener exported_dispatcher (quiet_listener 3)))
     = [(3, EndpointsAdded [ep_a, ep_b])]
   \<and> bind_listener exported_dispatcher (failing_listener 4)
     = ([ListenerCall 4 (EndpointsAdded [ep_a, ep_b]),
         Logged LogError ''Error notifying newly bound listener: %s''], Returned)
   \<and> bind_listener empty_dispatcher (quiet_listener 3) = ([], Returned)"
proof -
  have eps: "endpoints exported_dispatcher = [(''uid-a'', ep_a), (''uid-b'', ep_b)]"
    by (simp add: exported_dispatcher_def)
  have none: "endpoints empty_dispatcher = []"
    by (simp add: empty_dispatcher_def)
  have ids: "listener_id (quiet_listener 3) = 3" "listener_id (failing_listener 4) = 4"
    by (simp_all add: quiet_listener_def failing_listener_def)
  have raises: "endpoints_added (failing_listener 4) [ep_a, ep_b] = Raised OtherException"
    by (simp add: failing_listener_def)
  from bind_listener_snapshot [of exported_dispatcher "quiet_listener 3"] eps ids
  have "listener_calls (fst (bind_listener exported_dispatcher (quiet_listener 3)))
     = [(3, EndpointsAdded [ep_a, ep_b])]" by simp
  moreover from bind_listener_snapshot [of exported_dispatcher "failing_listener 4"] eps ids raises
  have "bind_listener exported_dispatcher (failing_listener 4)
     = ([ListenerCall 4 (EndpointsAdded [ep_a, ep_b]),
         Logged LogError ''Error notifying newly bound listener: %s''], Returned)"
    by (simp add: prod_eq_iff)
  moreover from bind_listener_snapshot [of empty_dispatcher "quiet_listener 3"] none
  have "bind_listener empty_dispatcher (quiet_listener 3) = ([], Returned)"
    by (simp add: prod_eq_iff)
  ultimately show ?thesis by simp
qed

lemma shared_dispatcher_reached:
  "fst (Dispatcher_export_service exported_dispatcher ref_other) = shared_dispatcher"
  by (simp add: eval_defs exported_dispatcher_def shared_dispatcher_def ref_other_def)

lemma stale_dispatcher_reached:
  "fst (Dispatcher_unexport_service shared_dispatcher ref_any) = stale_dispatcher"
  by (simp add: eval_defs exported_dispatcher_def shared_dispatcher_def stale_dispatcher_def)

text \<open>
  Claim C6 fails. \<open>stale_dispatcher\<close> is reached from \<open>two_exporters\<close> by exporting
  services 5 and 6 and unexporting service 5. The UIDs of the record of service 6 then have
  no exporter and no end point in the index: the handler logs the warning and raises
  \<open>AttributeError\<close>, the record is left as it was and the second UID of the record is not
  processed.
\<close>

theorem update_stale_uid_raises:
  "fst (Dispatcher_export_service two_exporters ref_any) = exported_dispatcher
   \<and> fst (Dispatcher_export_service exported_dispatcher ref_other) = shared_dispatcher
   \<and> fst (Dispatcher_unexport_service shared_dispatcher ref_any) = stale_dispatcher
   \<and> map_of (service_uids stale_dispatcher) (ref_id ref_other) = Some [''uid-a'', ''uid-b'']
   \<and> map_of (endpoints stale_dispatcher) ''uid-a'' = None
   \<and> snd (Dispatcher_update_service stale_dispatcher ref_other [])
       = ([Logged LogWarning ''No exporter for endpoint %s''], Raised AttributeError)
   \<and> service_uids (fst (Dispatcher_update_service stale_dispatcher ref_other []))
       = [(6, [''uid-a'', ''uid-b''])]"
  by (simp add: exported_dispatcher_reached shared_dispatcher_reached stale_dispatcher_reached)
     (simp add: eval_defs stale_dispatcher_def ref_other_def)

text \<open>
  Claim C2. Processing one UID whose exporter and end point are both in the index (and
  whose new name can be computed): when \<open>update_export\<close> raises \<open>NameError\<close>, the error is
  logged and the end point is unexported through the same exporter, no listener is called
  with anything but \<open>endpoint_removed(endpoint, old_properties)\<close>, and if no listener raises
  each listener gets that call exactly once; when \<open>update_export\<close> returns and no listener
  raises, each listener gets \<open>endpoint_updated(endpoint, old_properties)\<close> exactly once and
  nothing else.
\<close>

theorem update_uid_notifies:
  assumes "map_of (uid_exporter d) u = Some x"
    and "map_of (endpoints d) u = Some ep"
    and "compute_endpoint_name (get_properties svc_ref) = Inr nm"
  shows "(update_export x ep nm old = Raised NameError \<longrightarrow>
            take 3 (fst (update_uid d svc_ref old u))
              = [UpdateExportCall (exporter_id x) ep nm old,
                 Logged LogError ''Error updating service properties: %s'',
                 UnexportServiceCall (exporter_id x) ep]
            \<and> (\<forall>i n. (i, n) \<in> set (listener_calls (fst (update_uid d svc_ref old u)))
                  \<longrightarrow> n = EndpointRemoved ep (Some old)))
       \<and> (update_export x ep nm old = Raised NameError
            \<and> (\<forall>l \<in> set (listeners d). endpoint_removed l ep (Some old) = Returned) \<longrightarrow>
            update_uid d svc_ref old u
              = ([UpdateExportCall (exporter_id x) ep nm old,
                  Logged LogError ''Error updating service properties: %s'',
                  UnexportServiceCall (exporter_id x) ep]
                 @ map (\<lambda>l. ListenerCall (listener_id l) (EndpointRemoved ep (Some old)))
                     (listeners d),
                 Returned))
       \<and> (update_export x ep nm old = Returned
            \<and> (\<forall>l \<in> set (listeners d). endpoint_updated l ep old = Returned) \<longrightarrow>
            update_uid d svc_ref old u
              = (UpdateExportCall (exporter_id x) ep nm old
                   # map (\<lambda>l. ListenerCall (listener_id l) (EndpointUpdated ep old)) (listeners d),
                 Returned))"
proof (intro conjI impI allI)
  assume ne: "update_export x ep nm old = Raised NameError"
  obtain tr out where n:
    "notify_listeners (listeners d) (EndpointRemoved ep (Some old)) = (tr, out)"
    by (cases "notify_listeners (listeners d) (EndpointRemoved ep (Some old))") auto
  have upd: "update_uid d svc_ref old u
      = (UpdateExportCall (exporter_id x) ep nm old
           # Logged LogError ''Error updating service properties: %s''
           # UnexportServiceCall (exporter_id x) ep # tr, out)"
    using assms ne n by (simp add: update_uid_def)
  show "take 3 (fst (update_uid d svc_ref old u))
              = [UpdateExportCall (exporter_id x) ep nm old,
                 Logged LogError ''Error updating service properties: %s'',
                 UnexportServiceCall (exporter_id x) ep]"
    by (simp add: upd)
  fix i m
  assume "(i, m) \<in> set (listener_calls (fst (update_uid d svc_ref old u)))"
  then have "(i, m) \<in> set (listener_calls
      (fst (notify_listeners (listeners d) (EndpointRemoved ep (Some old)))))"
    by (simp add: upd n)
  then show "m = EndpointRemoved ep (Some old)"
    by (rule notify_listeners_only)
next
  assume h: "update_export x ep nm old = Raised NameError
            \<and> (\<forall>l \<in> set (listeners d). endpoint_removed l ep (Some old) = Returned)"
  then have "\<forall>l \<in> set (listeners d). deliver l (EndpointRemoved ep (Some old)) = Returned"
    by simp
  from notify_listeners_all_return [OF this] h assms
  show "update_uid d svc_ref old u
              = ([UpdateExportCall (exporter_id x) ep nm old,
                  Logged LogError ''Error updating service properties: %s'',
                  UnexportServiceCall (exporter_id x) ep]
                 @ map (\<lambda>l. ListenerCall (listener_id l) (EndpointRemoved ep (Some old)))
                     (listeners d),
                 Returned)"
    by (simp add: update_uid_def)
next
  assume h: "update_export x ep nm old = Returned
            \<and> (\<forall>l \<in> set (listeners d). endpoint_updated l ep old = Returned)"
  then have "\<forall>l \<in> set (listeners d). deliver l (EndpointUpdated ep old) = Returned"
    by simp
  from notify_listeners_all_return [OF this] h assms
  show "update_uid d svc_ref old u
              = (UpdateExportCall (exporter_id x) ep nm old
                   # map (\<lambda>l. ListenerCall (listener_id l) (EndpointUpdated ep old)) (listeners d),
                 Returned)"
    by (simp add: update_uid_def)
qed

theorem update_uid_notifies_witness:
  "update_uid exported_dispatcher ref_any [] ''uid-a''
     = ([UpdateExportCall 1 ep_a (ServiceName (PInt 5)) [],
         Logged LogError ''Error updating service properties: %s'',
         UnexportServiceCall 1 ep_a,
         ListenerCall 1 (EndpointRemoved ep_a (Some [])),
         ListenerCall 2 (EndpointRemoved ep_a (Some []))], Returned)
   \<and> update_uid exported_dispatcher ref_any [] ''uid-b''
     = ([UpdateExportCall 2 ep_b (ServiceName (PInt 5)) [],
         ListenerCall 1 (EndpointUpdated ep_b []),
         ListenerCall 2 (EndpointUpdated ep_b [])], Returned)
   \<and> snd (Dispatcher_update_service exported_dispatcher ref_any [])
     = ([UpdateExportCall 1 ep_a (ServiceName (PInt 5)) [],
         Logged LogError ''Error updating service properties: %s'',
         UnexportServiceCall 1 ep_a,
         ListenerCall 1 (EndpointRemoved ep_a (Some [])),
         ListenerCall 2 (EndpointRemoved ep_a (Some [])),
         UpdateExportCall 2 ep_b (ServiceName (PInt 5)) [],
         ListenerCall 1 (EndpointUpdated ep_b []),
         ListenerCall 2 (EndpointUpdated ep_b [])], Returned)"
proof -
  have xa: "map_of (uid_exporter exported_dispatcher) ''uid-a'' = Some jsonrpc_exporter"
    and xb: "map_of (uid_exporter exported_dispatcher) ''uid-b'' = Some xmlrpc_exporter"
    and ea: "map_of (endpoints exported_dispatcher) ''uid-a'' = Some ep_a"
    and eb: "map_of (endpoints exported_dispatcher) ''uid-b'' = Some ep_b"
    by (simp_all add: exported_dispatcher_def)
  have nm: "compute_endpoint_name (get_properties ref_any) = Inr (ServiceName (PInt 5))"
    by (simp add: eval_defs)
  have ls: "listeners exported_dispatcher = [quiet_listener 1, quiet_listener 2]"
    by (simp add: exported_dispatcher_def two_exporters_def empty_dispatcher_def)
  have quiet: "\<forall>l \<in> set (listeners exported_dispatcher).
      endpoint_removed l ep_a (Some []) = Returned"
    "\<forall>l \<in> set (listeners exported_dispatcher). endpoint_updated l ep_b [] = Returned"
    by (simp_all add: ls quiet_listener_def)
  have fails: "update_export jsonrpc_exporter ep_a (ServiceName (PInt 5)) [] = Raised NameError"
    and works: "update_export xmlrpc_exporter ep_b (ServiceName (PInt 5)) [] = Returned"
    by (simp_all add: jsonrpc_exporter_def xmlrpc_exporter_def)
  have ids: "exporter_id jsonrpc_exporter = 1" "exporter_id xmlrpc_exporter = 2"
    "\<And>i. listener_id (quiet_listener i) = i"
    by (simp_all add: jsonrpc_exporter_def xmlrpc_exporter_def quiet_listener_def)
  have "update_export jsonrpc_exporter ep_a (ServiceName (PInt 5)) [] = Raised NameError
      \<and> (\<forall>l \<in> set (listeners exported_dispatcher). endpoint_removed l ep_a (Some []) = Returned)"
    using fails quiet(1) by (rule conjI)
  with update_uid_notifies [OF xa ea nm, of "[]"]
  have "update_uid exported_dispatcher ref_any [] ''uid-a''
     = ([UpdateExportCall (exporter_id jsonrpc_exporter) ep_a (ServiceName (PInt 5)) [],
         Logged LogError ''Error updating service properties: %s'',
         UnexportServiceCall (exporter_id jsonrpc_exporter) ep_a]
        @ map (\<lambda>l. ListenerCall (listener_id l) (EndpointRemoved ep_a (Some [])))
            (listeners exported_dispatcher), Returned)"
    by blast
  then have a: "update_uid exported_dispatcher ref_any [] ''uid-a''
     = ([UpdateExportCall 1 ep_a (ServiceName (PInt 5)) [],
         Logged LogError ''Error updating service properties: %s'',
         UnexportServiceCall 1 ep_a,
         ListenerCall 1 (EndpointRemoved ep_a (Some [])),
         ListenerCall 2 (EndpointRemoved ep_a (Some []))], Returned)"
    by (simp add: ls ids)
  have "update_export xmlrpc_exporter ep_b (ServiceName (PInt 5)) [] = Returned
      \<and> (\<forall>l \<in> set (listeners exported_dispatcher). endpoint_updated l ep_b [] = Returned)"
    using works quiet(2) by (rule conjI)
  with update_uid_notifies [OF xb eb nm, of "[]"]
  have "update_uid exported_dispatcher ref_any [] ''uid-b''
     = (UpdateExportCall (exporter_id xmlrpc_exporter) ep_b (ServiceName (PInt 5)) []
          # map (\<lambda>l. ListenerCall (listener_id l) (EndpointUpdated ep_b []))
              (listeners exported_dispatcher), Returned)"
    by blast
  then have b: "update_uid exported_dispatcher ref_any [] ''uid-b''
     = ([UpdateExportCall 2 ep_b (ServiceName (PInt 5)) [],
         ListenerCall 1 (EndpointUpdated ep_b []),
         ListenerCall 2 (EndpointUpdated ep_b [])], Returned)"
    by (simp add: ls ids)
  have rec: "map_of (service_uids exported_dispatcher) (ref_id ref_any) = Some [''uid-a'', ''uid-b'']"
    by (simp add: exported_dispatcher_def ref_any_def)
  show ?thesis
    by (simp add: a b rec Dispatcher_update_service_def)
qed

lemma prop_names_distinct:
  "distinct [PROP_IMPORTED, PROP_IMPORTED_CONFIGS, PROP_EXPORTED_CONFIGS,
             PROP_EXPORTED_INTERFACES, PROP_FRAMEWORK_UID]"
  by (simp add: PROP_IMPORTED_def PROP_IMPORTED_CONFIGS_def PROP_EXPORTED_CONFIGS_def
      PROP_EXPORTED_INTERFACES_def PROP_FRAMEWORK_UID_def)

lemma filter_properties_lookup:
  "map_of (filter_properties fw ps) =
     ((map_of ps)(PROP_IMPORTED \<mapsto> PBool True,
                  PROP_IMPORTED_CONFIGS :=
                    (case map_of ps PROP_EXPORTED_CONFIGS of
                       None \<Rightarrow> map_of ps PROP_IMPORTED_CONFIGS
                     | Some v \<Rightarrow> Some v),
                  PROP_EXPORTED_CONFIGS := None,
                  PROP_EXPORTED_INTERFACES := None,
                  PROP_FRAMEWORK_UID \<mapsto> fw))"
  using prop_names_distinct
  by (auto simp: filter_properties_def Let_def update_conv' delete_conv' fun_eq_iff
      split: option.splits)

lemma register_wire_record:
  "register_endpoint host (make_endpoint_dict sender ep) registry
     = (registry @
          [\<lparr>import_uid = PStr (uid ep), import_framework = sender_value sender,
            import_configurations = PList (map PStr (configurations ep)),
            import_name = name ep,
            import_specifications = PList (map PStr (specifications ep)),
            import_properties = filter_properties (sender_value sender) (properties ep),
            server = host\<rparr>], Returned)"
  by (simp add: register_endpoint_def make_endpoint_dict_def sender_value_def)

text \<open>
  Claim C3. The transform sets \<open>imported\<close> to true, gives \<open>imported.configs\<close> the value of
  \<open>exported.configs\<close> when that key is present (and leaves it alone otherwise), removes
  \<open>exported.configs\<close> and \<open>exported.interfaces\<close>, sets \<open>framework.uid\<close> to the sender and
  touches no other key. Ingesting the wire record of an export end point adds exactly one
  import end point, whose properties are the transformed ones, whose framework is the
  sender and whose server is the address of the requester.
\<close>

theorem ingest_transform:
  "map_of (filter_properties fw ps) PROP_IMPORTED = Some (PBool True)
   \<and> map_of (filter_properties fw ps) PROP_IMPORTED_CONFIGS
       = (case map_of ps PROP_EXPORTED_CONFIGS of
            None \<Rightarrow> map_of ps PROP_IMPORTED_CONFIGS
          | Some v \<Rightarrow> Some v)
   \<and> map_of (filter_properties fw ps) PROP_EXPORTED_CONFIGS = None
   \<and> map_of (filter_properties fw ps) PROP_EXPORTED_INTERFACES = None
   \<and> map_of (filter_properties fw ps) PROP_FRAMEWORK_UID = Some fw
   \<and> (k \<notin> {PROP_IMPORTED, PROP_IMPORTED_CONFIGS, PROP_EXPORTED_CONFIGS,
             PROP_EXPORTED_INTERFACES, PROP_FRAMEWORK_UID} \<longrightarrow>
        map_of (filter_properties fw ps) k = map_of ps k)
   \<and> (\<exists>imp. register_endpoint host (make_endpoint_dict sender ep) registry
                = (registry @ [imp], Returned)
          \<and> import_framework imp = sender_value sender
          \<and> server imp = host
          \<and> import_properties imp = filter_properties (sender_value sender) (properties ep)
          \<and> map_of (import_properties imp) PROP_IMPORTED = Some (PBool True)
          \<and> map_of (import_properties imp) PROP_EXPORTED_CONFIGS = None
          \<and> map_of (import_properties imp) PROP_EXPORTED_INTERFACES = None
          \<and> map_of (import_properties imp) PROP_FRAMEWORK_UID = Some (sender_value sender))"
  using prop_names_distinct
  by (simp add: filter_properties_lookup register_wire_record)

theorem ingest_transform_witness:
  "register_endpoint ''10.0.0.2'' (make_endpoint_dict (Some ''fw-1'') ep_a) []
     = ([\<lparr>import_uid = PStr ''uid-a'', import_framework = PStr ''fw-1'',
          import_configurations = PList [PStr ''jsonrpc''], import_name = PStr ''service_5'',
          import_specifications = PList [PStr ''sample.Service''],
          import_properties = [(''imported'', PBool True), (''imported.configs'', PStr ''jsonrpc''),
                               (''framework.uid'', PStr ''fw-1'')],
          server = ''10.0.0.2''\<rparr>], Returned)
   \<and> map_of (filter_properties (PStr ''fw-1'') (properties ep_a)) ''imported.configs''
       = Some (PStr ''jsonrpc'')
   \<and> map_of (filter_properties (PStr ''fw-1'') [(''other'', PInt 1)]) ''other'' = Some (PInt 1)"
proof -
  have eval: "filter_properties (PStr ''fw-1'') (properties ep_a)
      = [(''imported'', PBool True), (''imported.configs'', PStr ''jsonrpc''),
         (''framework.uid'', PStr ''fw-1'')]"
    by (simp add: filter_properties_def ep_a_def PROP_IMPORTED_def PROP_IMPORTED_CONFIGS_def
        PROP_EXPORTED_CONFIGS_def PROP_EXPORTED_INTERFACES_def PROP_FRAMEWORK_UID_def)
  have other: "''other'' \<notin> {PROP_IMPORTED, PROP_IMPORTED_CONFIGS, PROP_EXPORTED_CONFIGS,
             PROP_EXPORTED_INTERFACES, PROP_FRAMEWORK_UID}"
    by (simp add: PROP_IMPORTED_def PROP_IMPORTED_CONFIGS_def
        PROP_EXPORTED_CONFIGS_def PROP_EXPORTED_INTERFACES_def PROP_FRAMEWORK_UID_def)
  have cfg: "map_of (properties ep_a) PROP_EXPORTED_CONFIGS = Some (PStr ''jsonrpc'')"
    by (simp add: ep_a_def PROP_EXPORTED_CONFIGS_def)
  from ingest_transform [of "PStr ''fw-1''" "properties ep_a" "''other''" "''10.0.0.2''"
      "Some ''fw-1''" ep_a "[]"]
  obtain imp where imp:
    "register_endpoint ''10.0.0.2'' (make_endpoint_dict (Some ''fw-1'') ep_a) [] = ([imp], Returned)"
    "map_of (filter_properties (PStr ''fw-1'') (properties ep_a)) PROP_IMPORTED_CONFIGS
       = Some (PStr ''jsonrpc'')"
    by (auto simp: cfg)
  from ingest_transform [of "PStr ''fw-1''" "[(''other'', PInt 1)]" "''other''" "''10.0.0.2''"
      "Some ''fw-1''" ep_a "[]"] other
  have o: "map_of (filter_properties (PStr ''fw-1'') [(''other'', PInt 1)]) ''other'' = Some (PInt 1)"
    by simp
  have "imp = \<lparr>import_uid = PStr ''uid-a'', import_framework = PStr ''fw-1'',
          import_configurations = PList [PStr ''jsonrpc''], import_name = PStr ''service_5'',
          import_specifications = PList [PStr ''sample.Service''],
          import_properties = [(''imported'', PBool True), (''imported.configs'', PStr ''jsonrpc''),
                               (''framework.uid'', PStr ''fw-1'')],
          server = ''10.0.0.2''\<rparr>"
    using imp(1) by (simp add: register_wire_record sender_value_def eval) (simp add: ep_a_def)
  with imp o show ?thesis by (simp add: PROP_IMPORTED_CONFIGS_def)
qed

text \<open>
  Claim C7, amended. A POST to a path ending in \<open>/endpoints\<close> whose body decodes to an
  object with a false truth value (the empty array, \<open>null\<close>, \<open>false\<close>, \<open>0\<close>, the empty string
  or the empty object) registers nothing, answers 200 with the plain text \<open>OK\<close> and returns
  normally.
\<close>

theorem post_falsy_document_ok:
  assumes "last (py_split (CHR ''/'') (get_path req)) = ''endpoints''"
    and "json_loads (read_data req) = Loaded v"
    and "\<not> py_truthy v"
  shows "do_POST registry req = Some (registry, Some (200, ''OK'', ''text/plain''), Returned)"
  using assms by (simp add: do_POST_def)

lemma endpoints_path:
  "last (py_split (CHR ''/'') ''/pelix-dispatcher/endpoints'') = ''endpoints''"
  by simp

lemma loads_empty_array: "json_loads ''[]'' = Loaded (PList [])"
  by code_simp

lemma loads_null: "json_loads '' null '' = Loaded PNone"
  by code_simp

lemma loads_empty: "json_loads '''' = LoadValueError"
  by code_simp

theorem post_falsy_document_ok_witness:
  "do_POST [] empty_array_post = Some ([], Some (200, ''OK'', ''text/plain''), Returned)
   \<and> do_POST [] null_post = Some ([], Some (200, ''OK'', ''text/plain''), Returned)"
proof -
  have "do_POST [] empty_array_post = Some ([], Some (200, ''OK'', ''text/plain''), Returned)"
    by (rule post_falsy_document_ok [where v = "PList []"])
       (simp_all add: empty_array_post_def endpoints_path loads_empty_array)
  moreover
  have "do_POST [] null_post = Some ([], Some (200, ''OK'', ''text/plain''), Returned)"
    by (rule post_falsy_document_ok [where v = PNone])
       (simp_all add: null_post_def endpoints_path loads_null)
  ultimately show ?thesis by simp
qed

text \<open>
  Claim C7 as stated fails: the empty body is not a JSON document, \<open>json.loads\<close> raises
  \<open>ValueError\<close>, the exception leaves the handler and no response is sent.
\<close>

theorem post_empty_body_raises:
  "do_POST [] empty_post = Some ([], None, Raised ValueError)"
  by (simp add: do_POST_def empty_post_def endpoints_path loads_empty)

end
